theory Spec2Isabelle
  imports Complex_Main "HOL-Library.AList" "HOL-Library.Sublist"
begin

section \<open>Python values\<close>

text \<open>
  A Python float is either a finite double (every finite double is a rational number),
  an infinity or a NaN. Only the distinctions the tools observe are kept: zero or not,
  finite or not, and the order of finite values.
\<close>

datatype pyfloat = Finite rat | PInf | NInf | NaN

text \<open>
  A \<open>datetime\<close>: the wall-clock reading in microseconds since 0001-01-01T00:00:00, and
  the UTC offset (in microseconds) of its \<open>tzinfo\<close> at that reading, \<open>None\<close> for a naive
  value.
\<close>

datatype datetime = DT (wall: int) (utcoffset: "int option")

text \<open>
  The values a request can carry: what \<open>json.loads\<close> produces, and \<open>datetime\<close> objects,
  which a caller can pass inside a dict. A Python dict is an association list with
  distinct keys, in insertion order.
\<close>

datatype jval =
    JNull
  | JBool bool
  | JInt int
  | JFloat pyfloat
  | JStr string
  | JList "jval list"
  | JDict "(string \<times> jval) list"
  | JDatetime datetime

type_synonym pydict = "(string \<times> jval) list"

text \<open>The exceptions the tools can meet; \<open>exn_msg\<close> is \<open>str(e)\<close>.\<close>

datatype exn =
    ValueError string
  | TypeError string
  | KeyError string
  | AttributeError string
  | OverflowError string
  | OtherError string

fun exn_msg :: "exn \<Rightarrow> string" where
  "exn_msg (ValueError m) = m"
| "exn_msg (TypeError m) = m"
| "exn_msg (KeyError k) = [CHR 0x27] @ k @ [CHR 0x27]"
| "exn_msg (AttributeError m) = m"
| "exn_msg (OverflowError m) = m"
| "exn_msg (OtherError m) = m"

text \<open>Truth value testing (\<open>if x\<close>, \<open>not x\<close>, \<open>x or y\<close>).\<close>

fun truthy :: "jval \<Rightarrow> bool" where
  "truthy JNull = False"
| "truthy (JBool b) = b"
| "truthy (JInt i) = (i \<noteq> 0)"
| "truthy (JFloat f) = (f \<noteq> Finite 0)"
| "truthy (JStr s) = (s \<noteq> [])"
| "truthy (JList xs) = (xs \<noteq> [])"
| "truthy (JDict kvs) = (kvs \<noteq> [])"
| "truthy (JDatetime d) = True"

text \<open>
  \<open>k in d\<close> is \<open>map_of d k \<noteq> None\<close>. \<open>d.get(k)\<close> gives \<open>None\<close> for a missing key.
\<close>

definition dict_get :: "pydict \<Rightarrow> string \<Rightarrow> jval" where
  "dict_get d k = (case map_of d k of None \<Rightarrow> JNull | Some v \<Rightarrow> v)"

text \<open>\<open>d[k]\<close> raises \<open>KeyError\<close> for a missing key.\<close>

definition dict_item :: "pydict \<Rightarrow> string \<Rightarrow> exn + jval" where
  "dict_item d k = (case map_of d k of None \<Rightarrow> Inl (KeyError k) | Some v \<Rightarrow> Inr v)"

text \<open>
  \<open>json.dumps\<close> raises \<open>TypeError\<close> on a value that is not JSON: here, a \<open>datetime\<close>
  anywhere inside.
\<close>

fun json_serializable :: "jval \<Rightarrow> bool" where
  "json_serializable (JDatetime d) = False"
| "json_serializable (JList xs) = list_all json_serializable xs"
| "json_serializable (JDict kvs) = list_all json_serializable (map snd kvs)"
| "json_serializable v = True"

section \<open>The library functions the tools call\<close>

text \<open>
  The tools are glue over libraries that are not part of the repository. Their functions
  are parameters of the model, one field each:
  \<^item> \<open>json_loads\<close>: \<open>json.loads\<close>, \<open>Inl\<close> the message of a \<open>JSONDecodeError\<close>;
  \<^item> \<open>int_of_str\<close>: \<open>int(s)\<close> on a string, \<open>None\<close> when it raises \<open>ValueError\<close>;
  \<^item> \<open>dateutil_parse\<close>: \<open>dateutil.parser.parse\<close>, \<open>Inl\<close> the text of whatever it raises;
  \<^item> \<open>isoparse\<close>: \<open>dateutil.parser.isoparse\<close>, \<open>Inl\<close> the message of its \<open>ValueError\<close>;
  \<^item> \<open>zoneinfo\<close>: \<open>ZoneInfo(key)\<close>, \<open>None\<close> when the key is not recognised, else the zone's
    UTC offset as a function of the wall-clock reading;
  \<^item> \<open>local_offset\<close>: the UTC offset of the system's local zone (what \<open>astimezone\<close> assumes of
    a naive value);
  \<^item> \<open>iso_wall\<close>: the date and time part of \<open>datetime.isoformat()\<close>;
  \<^item> \<open>py_str\<close>: \<open>str(v)\<close> for a value that is not a string;
  \<^item> \<open>sql_adapt\<close>: what SQLite keeps in a \<open>TEXT\<close> column for a bound value that is neither
    \<open>None\<close> nor a string: \<open>None\<close> when binding raises, \<open>Some None\<close> for \<open>NULL\<close>;
  \<^item> \<open>uuid4\<close>: the text of the identifier \<open>uuid.uuid4()\<close> generates in this call;
  \<^item> \<open>utcnow\<close>: the reading of \<open>datetime.now(timezone.utc)\<close> in this call;
  \<^item> \<open>float_of_int\<close>: \<open>float(i)\<close> on an integer, \<open>None\<close> when it raises \<open>OverflowError\<close>;
  \<^item> \<open>libm\<close>: the value of \<open>math.sin\<close>, \<open>math.asin\<close> and so on, by name, on an argument
    inside the function's domain;
  \<^item> \<open>radians\<close>, \<open>degrees\<close>: \<open>math.radians\<close> and \<open>math.degrees\<close>.
\<close>

record env =
  json_loads :: "string \<Rightarrow> string + jval"
  int_of_str :: "string \<Rightarrow> int option"
  dateutil_parse :: "string \<Rightarrow> string + datetime"
  isoparse :: "string \<Rightarrow> string + datetime"
  zoneinfo :: "string \<Rightarrow> (int \<Rightarrow> int) option"
  local_offset :: "int \<Rightarrow> int"
  iso_wall :: "int \<Rightarrow> string"
  py_str :: "jval \<Rightarrow> string"
  sql_adapt :: "jval \<Rightarrow> string option option"
  uuid4 :: string
  utcnow :: int
  float_of_int :: "int \<Rightarrow> pyfloat option"
  libm :: "string \<Rightarrow> pyfloat \<Rightarrow> pyfloat"
  radians :: "pyfloat \<Rightarrow> pyfloat"
  degrees :: "pyfloat \<Rightarrow> pyfloat"

section \<open>Strings and datetimes\<close>

text \<open>\<open>str.lower()\<close> on ASCII letters.\<close>

definition lower_char :: "char \<Rightarrow> char" where
  "lower_char c =
     (if 65 \<le> (of_char c :: nat) \<and> (of_char c :: nat) \<le> 90
      then char_of ((of_char c :: nat) + 32) else c)"

definition lower :: "string \<Rightarrow> string" where
  "lower s = map lower_char s"

text \<open>
  \<open>s.replace(old, new)\<close>: every occurrence, found left to right, without overlap.
\<close>

function str_replace :: "string \<Rightarrow> string \<Rightarrow> string \<Rightarrow> string" where
  "str_replace old new [] = (if old = [] then new else [])"
| "str_replace old new (c # cs) =
     (if old = [] then new @ c # str_replace old new cs
      else if prefix old (c # cs)
           then new @ str_replace old new (drop (length old) (c # cs))
           else c # str_replace old new cs)"
  by pat_completeness auto
termination
  by (relation "measure (\<lambda>(old, new, s). length s)") auto

text \<open>
  \<open>"%02d" % n\<close> and \<open>"%06d" % n\<close>. A UTC offset is less than a day in magnitude, so its
  hours, minutes and seconds have at most two digits and its microseconds at most six.
\<close>

definition digit :: "int \<Rightarrow> char" where
  "digit n = char_of (48 + n mod 10)"

definition fmt2 :: "int \<Rightarrow> string" where
  "fmt2 n = [digit (n div 10), digit n]"

definition fmt6 :: "int \<Rightarrow> string" where
  "fmt6 n = [digit (n div 100000), digit (n div 10000), digit (n div 1000),
             digit (n div 100), digit (n div 10), digit n]"

text \<open>The offset part of \<open>datetime.isoformat()\<close>: nothing for a naive value.\<close>

definition format_offset :: "int option \<Rightarrow> string" where
  "format_offset off =
     (case off of
        None \<Rightarrow> []
      | Some d \<Rightarrow>
          (let a = \<bar>d\<bar>;
               hh = a div 3600000000;
               mm = (a mod 3600000000) div 60000000;
               ss = a mod 60000000
           in (if d < 0 then ''-'' else ''+'') @ fmt2 hh @ '':'' @ fmt2 mm @
              (if ss \<noteq> 0
               then '':'' @ fmt2 (ss div 1000000) @
                    (if ss mod 1000000 \<noteq> 0 then ''.'' @ fmt6 (ss mod 1000000) else [])
               else [])))"

text \<open>\<open>datetime.isoformat()\<close>\<close>

definition dt_isoformat :: "env \<Rightarrow> datetime \<Rightarrow> string" where
  "dt_isoformat env dt = iso_wall env (wall dt) @ format_offset (utcoffset dt)"

text \<open>The largest reading: 9999-12-31T23:59:59.999999.\<close>

definition max_wall :: int where
  "max_wall = 315537897599999999"

text \<open>
  \<open>dt.astimezone(timezone.utc)\<close>: the same instant read in UTC; \<open>OverflowError\<close> when that
  reading is outside the years 1 to 9999.
\<close>

definition astimezone_utc :: "env \<Rightarrow> datetime \<Rightarrow> exn + datetime" where
  "astimezone_utc env dt =
     (let off = (case utcoffset dt of Some d \<Rightarrow> d | None \<Rightarrow> local_offset env (wall dt));
          u = wall dt - off
      in if 0 \<le> u \<and> u \<le> max_wall then Inr (DT u (Some 0))
         else Inl (OverflowError ''date value out of range''))"

text \<open>\<open>_isoformat\<close>\<close>

definition isoformat :: "env \<Rightarrow> datetime \<Rightarrow> exn + string" where
  "isoformat env dt =
     (let dt1 = (case utcoffset dt of None \<Rightarrow> DT (wall dt) (Some 0) | Some d \<Rightarrow> dt)
      in case astimezone_utc env dt1 of
           Inl e \<Rightarrow> Inl e
         | Inr dt_utc \<Rightarrow> Inr (str_replace ''+00:00'' ''Z'' (dt_isoformat env dt_utc)))"

text \<open>
  \<open>_ensure_tz\<close>. \<open>ZoneInfo(tz)\<close> raises on every key that is not a string, and on a string
  it does not recognise; both are caught and the value is read as UTC.
\<close>

definition ensure_tz :: "env \<Rightarrow> datetime \<Rightarrow> jval \<Rightarrow> datetime" where
  "ensure_tz env dt tz =
     (case utcoffset dt of
        Some d \<Rightarrow> dt
      | None \<Rightarrow>
          (if truthy tz
           then (case tz of
                   JStr name \<Rightarrow>
                     (case zoneinfo env name of
                        Some z \<Rightarrow> DT (wall dt) (Some (z (wall dt)))
                      | None \<Rightarrow> DT (wall dt) (Some 0))
                 | _ \<Rightarrow> DT (wall dt) (Some 0))
           else DT (wall dt) (Some 0)))"

text \<open>Sequencing of steps that can raise: the first exception ends the sequence.\<close>

definition and_then :: "exn + 'a \<Rightarrow> ('a \<Rightarrow> exn + 'b) \<Rightarrow> exn + 'b" where
  "and_then m f = (case m of Inl e \<Rightarrow> Inl e | Inr x \<Rightarrow> f x)"

fun map_exn :: "('a \<Rightarrow> exn + 'b) \<Rightarrow> 'a list \<Rightarrow> exn + 'b list" where
  "map_exn f [] = Inr []"
| "map_exn f (x # xs) =
     and_then (f x) (\<lambda>y. and_then (map_exn f xs) (\<lambda>ys. Inr (y # ys)))"

text \<open>
  Comparison of two datetimes: by instant when both are aware, by reading when both are
  naive, \<open>TypeError\<close> otherwise.
\<close>

definition instant :: "datetime \<Rightarrow> int" where
  "instant dt = wall dt - (case utcoffset dt of Some d \<Rightarrow> d | None \<Rightarrow> 0)"

definition dt_le :: "datetime \<Rightarrow> datetime \<Rightarrow> exn + bool" where
  "dt_le a b =
     (if (utcoffset a = None) = (utcoffset b = None) then Inr (instant a \<le> instant b)
      else Inl (TypeError ''can't compare offset-naive and offset-aware datetimes''))"

section \<open>The calendar store\<close>

text \<open>
  A row of the SQLite table \<open>events\<close>. Every column is \<open>TEXT\<close>; \<open>None\<close> is \<open>NULL\<close>. The
  \<open>metadata\<close> column holds the \<open>json.dumps\<close> text of a value and is read back with
  \<open>json.loads\<close>; the model keeps the value that text denotes.
\<close>

record row =
  col_id :: "string option"
  col_title :: "string option"
  col_description :: "string option"
  col_start :: "string option"
  col_end :: "string option"
  col_timezone :: "string option"
  col_metadata :: "jval option"

text \<open>The fields of a \<open>CalendarTool\<close>: \<open>_in_memory\<close>, and the table behind \<open>_conn\<close>.\<close>

record calendar =
  default_timezone :: string
  use_sqlite :: bool
  in_memory :: "(string \<times> pydict) list"
  events_table :: "row list"

definition sql_bind :: "env \<Rightarrow> jval \<Rightarrow> exn + string option" where
  "sql_bind env v =
     (case v of
        JNull \<Rightarrow> Inr None
      | JStr s \<Rightarrow> Inr (Some s)
      | _ \<Rightarrow> (case sql_adapt env v of
                None \<Rightarrow> Inl (OtherError ''Error binding parameter: type is not supported'')
              | Some t \<Rightarrow> Inr t))"

definition sql_value :: "string option \<Rightarrow> jval" where
  "sql_value c = (case c of None \<Rightarrow> JNull | Some s \<Rightarrow> JStr s)"

text \<open>\<open>json.dumps(evt.get("metadata", {}))\<close>\<close>

definition dump_metadata :: "pydict \<Rightarrow> exn + jval option" where
  "dump_metadata evt =
     (let v = (case map_of evt ''metadata'' of None \<Rightarrow> JDict [] | Some m \<Rightarrow> m)
      in if json_serializable v then Inr (Some v)
         else Inl (TypeError ''Object is not JSON serializable''))"

text \<open>The dict that \<open>_persist_list_all\<close> and \<open>_persist_get\<close> build from a row.\<close>

definition row_event :: "row \<Rightarrow> pydict" where
  "row_event r =
     [(''id'', sql_value (col_id r)),
      (''title'', sql_value (col_title r)),
      (''description'', sql_value (col_description r)),
      (''start'', sql_value (col_start r)),
      (''end'', sql_value (col_end r)),
      (''timezone'', sql_value (col_timezone r)),
      (''metadata'', (case col_metadata r of None \<Rightarrow> JDict [] | Some v \<Rightarrow> v))]"

text \<open>Binding of the five text fields, in the order of the statement's parameters.\<close>

definition bind_fields :: "env \<Rightarrow> pydict \<Rightarrow> jval option \<Rightarrow> exn + row" where
  "bind_fields env evt md =
     and_then (sql_bind env (dict_get evt ''title'')) (\<lambda>t.
     and_then (sql_bind env (dict_get evt ''description'')) (\<lambda>d.
     and_then (sql_bind env (dict_get evt ''start'')) (\<lambda>s.
     and_then (sql_bind env (dict_get evt ''end'')) (\<lambda>e.
     and_then (sql_bind env (dict_get evt ''timezone'')) (\<lambda>z.
       Inr \<lparr>col_id = None, col_title = t, col_description = d, col_start = s,
            col_end = e, col_timezone = z, col_metadata = md\<rparr>)))))"

text \<open>\<open>_persist_insert\<close>: the primary key refuses a second row with the same id.\<close>

definition persist_insert :: "env \<Rightarrow> calendar \<Rightarrow> pydict \<Rightarrow> exn + calendar" where
  "persist_insert env st evt =
     and_then (dict_item evt ''id'') (\<lambda>idv.
     and_then (dump_metadata evt) (\<lambda>md.
     and_then (sql_bind env idv) (\<lambda>i.
     and_then (bind_fields env evt md) (\<lambda>r.
       if i \<noteq> None \<and> i \<in> set (map col_id (events_table st))
       then Inl (OtherError ''UNIQUE constraint failed: events.id'')
       else Inr (st\<lparr>events_table := events_table st @ [r\<lparr>col_id := i\<rparr>]\<rparr>)))))"

text \<open>\<open>_persist_update\<close>\<close>

definition persist_update :: "env \<Rightarrow> calendar \<Rightarrow> pydict \<Rightarrow> exn + calendar" where
  "persist_update env st evt =
     and_then (dump_metadata evt) (\<lambda>md.
     and_then (dict_item evt ''id'') (\<lambda>idv.
     and_then (bind_fields env evt md) (\<lambda>r.
     and_then (sql_bind env idv) (\<lambda>i.
       Inr (st\<lparr>events_table :=
                 map (\<lambda>old. if i \<noteq> None \<and> col_id old = i then r\<lparr>col_id := col_id old\<rparr> else old)
                     (events_table st)\<rparr>)))))"

text \<open>\<open>_persist_delete\<close>\<close>

definition persist_delete :: "env \<Rightarrow> calendar \<Rightarrow> jval \<Rightarrow> exn + calendar" where
  "persist_delete env st event_id =
     and_then (sql_bind env event_id) (\<lambda>i.
       Inr (st\<lparr>events_table :=
                 filter (\<lambda>old. \<not> (i \<noteq> None \<and> col_id old = i)) (events_table st)\<rparr>))"

text \<open>\<open>_persist_list_all\<close>\<close>

definition persist_list_all :: "calendar \<Rightarrow> pydict list" where
  "persist_list_all st = map row_event (events_table st)"

text \<open>\<open>_persist_get\<close>\<close>

definition persist_get :: "env \<Rightarrow> calendar \<Rightarrow> jval \<Rightarrow> exn + pydict option" where
  "persist_get env st event_id =
     and_then (sql_bind env event_id) (\<lambda>i.
       Inr (map_option row_event
              (find (\<lambda>old. i \<noteq> None \<and> col_id old = i) (events_table st))))"

text \<open>
  A lookup in \<open>_in_memory\<close>, whose keys are strings: a list or a dict is not hashable, and
  no other value equals a string.
\<close>

definition mem_lookup :: "(string \<times> pydict) list \<Rightarrow> jval \<Rightarrow> exn + pydict option" where
  "mem_lookup m k =
     (case k of
        JStr s \<Rightarrow> Inr (map_of m s)
      | JList xs \<Rightarrow> Inl (TypeError ''unhashable type: list'')
      | JDict kvs \<Rightarrow> Inl (TypeError ''unhashable type: dict'')
      | _ \<Rightarrow> Inr None)"

section \<open>Parsing\<close>

text \<open>\<open>_parse_datetime\<close>\<close>

definition parse_datetime :: "env \<Rightarrow> calendar \<Rightarrow> jval \<Rightarrow> jval \<Rightarrow> exn + datetime" where
  "parse_datetime env st v tz =
     and_then
       (case v of
          JDatetime d \<Rightarrow> Inr d
        | JStr s \<Rightarrow>
            (case dateutil_parse env s of
               Inl m \<Rightarrow> Inl (ValueError (''Unable to parse datetime string: '' @ s @ ''; error: '' @ m))
             | Inr d \<Rightarrow> Inr d)
        | _ \<Rightarrow> Inl (ValueError ''start/end must be a datetime or string''))
       (\<lambda>dt. astimezone_utc env
                (ensure_tz env dt (if truthy tz then tz else JStr (default_timezone st))))"

section \<open>Event operations\<close>

text \<open>\<open>_create_event_in_memory\<close>\<close>

definition create_event_in_memory :: "env \<Rightarrow> calendar \<Rightarrow> pydict \<Rightarrow> exn + calendar \<times> pydict" where
  "create_event_in_memory env st evt =
     (let event_id = uuid4 env;
          tz = (if truthy (dict_get evt ''timezone'') then dict_get evt ''timezone''
                else JStr (default_timezone st))
      in and_then (dict_item evt ''start'') (\<lambda>sv.
         and_then (parse_datetime env st sv tz) (\<lambda>start_dt.
         and_then (case map_of evt ''end'' of
                     None \<Rightarrow> Inr None
                   | Some ev \<Rightarrow> if ev = JNull then Inr None
                               else and_then (parse_datetime env st ev tz) (\<lambda>d. Inr (Some d)))
                  (\<lambda>end_dt.
         and_then (isoformat env start_dt) (\<lambda>start_s.
         and_then (case end_dt of
                     None \<Rightarrow> Inr JNull
                   | Some d \<Rightarrow> and_then (isoformat env d) (\<lambda>s. Inr (JStr s)))
                  (\<lambda>end_v.
           (let stored =
                  [(''id'', JStr event_id),
                   (''title'', dict_get evt ''title''),
                   (''description'', dict_get evt ''description''),
                   (''start'', JStr start_s),
                   (''end'', end_v),
                   (''timezone'', tz),
                   (''metadata'', (case map_of evt ''metadata'' of
                                      None \<Rightarrow> JDict [] | Some m \<Rightarrow> m))]
            in if use_sqlite st
               then and_then (persist_insert env st stored) (\<lambda>st'. Inr (st', stored))
               else Inr (st\<lparr>in_memory := AList.update event_id stored (in_memory st)\<rparr>,
                         stored))))))))"

text \<open>\<open>_list_events_in_memory\<close>\<close>

definition list_events_in_memory :: "calendar \<Rightarrow> pydict list" where
  "list_events_in_memory st =
     (if use_sqlite st then persist_list_all st else map snd (in_memory st))"

text \<open>\<open>_get_event_in_memory\<close>\<close>

definition get_event_in_memory :: "env \<Rightarrow> calendar \<Rightarrow> jval \<Rightarrow> exn + pydict option" where
  "get_event_in_memory env st event_id =
     (if use_sqlite st then persist_get env st event_id
      else mem_lookup (in_memory st) event_id)"

text \<open>\<open>_delete_event_in_memory\<close>\<close>

definition delete_event_in_memory :: "env \<Rightarrow> calendar \<Rightarrow> jval \<Rightarrow> exn + calendar \<times> bool" where
  "delete_event_in_memory env st event_id =
     (if use_sqlite st
      then and_then (persist_get env st event_id) (\<lambda>found.
             if found = None then Inr (st, False)
             else and_then (persist_delete env st event_id) (\<lambda>st'. Inr (st', True)))
      else and_then (mem_lookup (in_memory st) event_id) (\<lambda>found.
             case event_id of
               JStr s \<Rightarrow> Inr (st\<lparr>in_memory := AList.delete s (in_memory st)\<rparr>, found \<noteq> None)
             | _ \<Rightarrow> Inr (st, found \<noteq> None)))"

text \<open>
  \<open>_update_event_in_memory\<close>. The zone used to read a new \<open>start\<close> or \<open>end\<close>:
  \<open>changes.get("timezone", existing.get("timezone", self.default_timezone))\<close>.
\<close>

definition update_tz :: "calendar \<Rightarrow> pydict \<Rightarrow> pydict \<Rightarrow> jval" where
  "update_tz st changes existing =
     (case map_of changes ''timezone'' of
        Some v \<Rightarrow> v
      | None \<Rightarrow> (case map_of existing ''timezone'' of
                   Some v \<Rightarrow> v
                 | None \<Rightarrow> JStr (default_timezone st)))"

text \<open>The block \<open>if "start" in changes\<close>: whatever it raises becomes a \<open>ValueError\<close>.\<close>

definition update_start :: "env \<Rightarrow> calendar \<Rightarrow> pydict \<Rightarrow> pydict \<Rightarrow> exn + pydict" where
  "update_start env st changes existing =
     (case map_of changes ''start'' of
        None \<Rightarrow> Inr existing
      | Some v \<Rightarrow>
          (case and_then (parse_datetime env st v (update_tz st changes existing))
                         (isoformat env) of
             Inl e \<Rightarrow> Inl (ValueError (''Invalid start value: '' @ exn_msg e))
           | Inr s \<Rightarrow> Inr (AList.update ''start'' (JStr s) existing)))"

text \<open>The block \<open>if "end" in changes\<close>: its exceptions are not wrapped.\<close>

definition update_end :: "env \<Rightarrow> calendar \<Rightarrow> pydict \<Rightarrow> pydict \<Rightarrow> exn + pydict" where
  "update_end env st changes existing =
     (case map_of changes ''end'' of
        None \<Rightarrow> Inr existing
      | Some v \<Rightarrow>
          if v = JNull then Inr (AList.update ''end'' JNull existing)
          else and_then (and_then (parse_datetime env st v (update_tz st changes existing))
                                  (isoformat env))
                        (\<lambda>s. Inr (AList.update ''end'' (JStr s) existing)))"

text \<open>\<open>if k in changes: existing[k] = changes[k]\<close>\<close>

definition copy_field :: "string \<Rightarrow> pydict \<Rightarrow> pydict \<Rightarrow> pydict" where
  "copy_field k changes existing =
     (case map_of changes k of None \<Rightarrow> existing | Some v \<Rightarrow> AList.update k v existing)"

text \<open>
  In the in-memory variant \<open>existing\<close> is the stored dict itself, not a copy: an
  assignment to one of its keys is at once a write to the store. In the SQLite variant
  \<open>existing\<close> is a fresh dict built from the row, and the store changes only in
  \<open>_persist_update\<close>.
\<close>

definition write_through :: "calendar \<Rightarrow> jval \<Rightarrow> pydict \<Rightarrow> calendar" where
  "write_through st event_id existing =
     (if use_sqlite st then st
      else (case event_id of
              JStr s \<Rightarrow> st\<lparr>in_memory := AList.update s existing (in_memory st)\<rparr>
            | _ \<Rightarrow> st))"

definition update_event_in_memory ::
  "env \<Rightarrow> calendar \<Rightarrow> jval \<Rightarrow> pydict \<Rightarrow> calendar \<times> (exn + pydict option)" where
  "update_event_in_memory env st event_id changes =
     (case get_event_in_memory env st event_id of
        Inl e \<Rightarrow> (st, Inl e)
      | Inr None \<Rightarrow> (st, Inr None)
      | Inr (Some existing) \<Rightarrow>
          if existing = [] then (st, Inr None)
          else
            (case update_start env st changes existing of
               Inl e \<Rightarrow> (st, Inl e)
             | Inr ex1 \<Rightarrow>
                 (case update_end env st changes ex1 of
                    Inl e \<Rightarrow> (write_through st event_id ex1, Inl e)
                  | Inr ex2 \<Rightarrow>
                      (let ex3 = copy_field ''metadata'' changes
                                   (copy_field ''timezone'' changes
                                     (copy_field ''description'' changes
                                       (copy_field ''title'' changes ex2)))
                       in if use_sqlite st
                          then (case persist_update env st ex3 of
                                  Inl e \<Rightarrow> (st, Inl e)
                                | Inr st' \<Rightarrow> (st', Inr (Some ex3)))
                          else (write_through st event_id ex3, Inr (Some ex3))))))"

section \<open>Queries\<close>

text \<open>\<open>dateutil_parser.isoparse(e["start"])\<close>\<close>

definition isoparse_val :: "env \<Rightarrow> jval \<Rightarrow> exn + datetime" where
  "isoparse_val env v =
     (case v of
        JStr s \<Rightarrow> (case isoparse env s of Inl m \<Rightarrow> Inl (ValueError m) | Inr d \<Rightarrow> Inr d)
      | _ \<Rightarrow> Inl (TypeError ''isoparse: argument is not a string''))"

definition event_start :: "env \<Rightarrow> pydict \<Rightarrow> exn + datetime" where
  "event_start env e = and_then (dict_item e ''start'') (isoparse_val env)"

text \<open>\<open>dateutil_parser.isoparse(e["end"]) if e.get("end") else None\<close>\<close>

definition event_end :: "env \<Rightarrow> pydict \<Rightarrow> exn + datetime option" where
  "event_end env e =
     (if truthy (dict_get e ''end'')
      then and_then (isoparse_val env (dict_get e ''end'')) (\<lambda>d. Inr (Some d))
      else Inr None)"

text \<open>\<open>x >= lo and x <= hi\<close>, the second comparison made only when the first holds.\<close>

definition between :: "datetime \<Rightarrow> datetime \<Rightarrow> datetime \<Rightarrow> exn + bool" where
  "between lo hi x =
     and_then (dt_le lo x) (\<lambda>c. if c then dt_le x hi else Inr False)"

text \<open>The body of the loop of \<open>_events_in_range\<close>: is \<open>e\<close> appended?\<close>

definition in_range :: "env \<Rightarrow> datetime \<Rightarrow> datetime \<Rightarrow> pydict \<Rightarrow> exn + bool" where
  "in_range env lo hi e =
     and_then (event_start env e) (\<lambda>e_start.
     and_then (event_end env e) (\<lambda>e_end.
     and_then (between lo hi e_start) (\<lambda>c.
       if c then Inr True
       else (case e_end of None \<Rightarrow> Inr False | Some d \<Rightarrow> between lo hi d))))"

fun range_loop :: "env \<Rightarrow> datetime \<Rightarrow> datetime \<Rightarrow> pydict list \<Rightarrow> exn + pydict list" where
  "range_loop env lo hi [] = Inr []"
| "range_loop env lo hi (e # es) =
     and_then (in_range env lo hi e) (\<lambda>c.
     and_then (range_loop env lo hi es) (\<lambda>out. Inr (if c then e # out else out)))"

text \<open>
  \<open>out.sort(key=...)\<close>: the keys are computed first, then compared; the sort is stable.
  Keys of which some are naive and some aware cannot be compared.
\<close>

definition sort_by_start :: "env \<Rightarrow> pydict list \<Rightarrow> exn + pydict list" where
  "sort_by_start env out =
     and_then (map_exn (event_start env) out) (\<lambda>keys.
       if list_all (\<lambda>k. utcoffset k = None) keys \<or> list_all (\<lambda>k. utcoffset k \<noteq> None) keys
       then Inr (map snd (sort_key (\<lambda>p. instant (fst p)) (zip keys out)))
       else Inl (TypeError ''can't compare offset-naive and offset-aware datetimes''))"

text \<open>\<open>_events_in_range\<close>\<close>

definition events_in_range :: "env \<Rightarrow> calendar \<Rightarrow> datetime \<Rightarrow> datetime \<Rightarrow> exn + pydict list" where
  "events_in_range env st lo hi =
     and_then (range_loop env lo hi (list_events_in_memory st)) (sort_by_start env)"

text \<open>The loop of \<open>_find_next_event\<close>.\<close>

fun upcoming_loop :: "env \<Rightarrow> datetime \<Rightarrow> pydict list \<Rightarrow> exn + (datetime \<times> pydict) list" where
  "upcoming_loop env now_dt [] = Inr []"
| "upcoming_loop env now_dt (e # es) =
     and_then (event_start env e) (\<lambda>e_start.
     and_then (dt_le now_dt e_start) (\<lambda>c.
     and_then (upcoming_loop env now_dt es) (\<lambda>up.
       Inr (if c then (e_start, e) # up else up))))"

text \<open>
  \<open>_find_next_event\<close>. Every key of \<open>upcoming\<close> was compared with \<open>now_dt\<close>, so the keys
  can be compared with each other.
\<close>

definition find_next_event :: "env \<Rightarrow> calendar \<Rightarrow> datetime \<Rightarrow> exn + pydict option" where
  "find_next_event env st now_dt =
     and_then (upcoming_loop env now_dt (list_events_in_memory st)) (\<lambda>upcoming.
       case sort_key (\<lambda>p. instant (fst p)) upcoming of
         [] \<Rightarrow> Inr None
       | p # ps \<Rightarrow> Inr (Some (snd p)))"

section \<open>The calendar tool: response envelope\<close>

text \<open>
  \<open>CalendarTool._format_response\<close>. The result is the payload whose \<open>json.dumps\<close> text is
  returned, or the \<open>TypeError\<close> that \<open>json.dumps\<close> raises.
\<close>

definition format_response ::
  "string \<Rightarrow> string option \<Rightarrow> pydict option \<Rightarrow> pydict list option \<Rightarrow> exn + pydict" where
  "format_response status error event events =
     (let payload =
        [(''status'', JStr status),
         (''error'', (case error of None \<Rightarrow> JNull | Some m \<Rightarrow> JStr m)),
         (''event'', (case event of None \<Rightarrow> JNull | Some e \<Rightarrow> JDict e)),
         (''events'', (case events of None \<Rightarrow> JNull | Some es \<Rightarrow> JList (map JDict es))),
         (''count'', JInt (case events of
                             Some es \<Rightarrow> int (length es)
                           | None \<Rightarrow> (case event of Some e \<Rightarrow> 1 | None \<Rightarrow> 0)))]
      in if json_serializable (JDict payload) then Inr payload
         else Inl (TypeError ''Object is not JSON serializable''))"

section \<open>The calendar tool: requests\<close>

text \<open>
  \<open>int(v)\<close>: a number is truncated towards zero, a string is read as an integer literal,
  and nothing else is accepted.
\<close>

definition py_int :: "env \<Rightarrow> jval \<Rightarrow> exn + int" where
  "py_int env v =
     (case v of
        JBool b \<Rightarrow> Inr (if b then 1 else 0)
      | JInt i \<Rightarrow> Inr i
      | JFloat f \<Rightarrow>
          (case f of
             Finite r \<Rightarrow> Inr (if 0 \<le> r then \<lfloor>r\<rfloor> else \<lceil>r\<rceil>)
           | NaN \<Rightarrow> Inl (ValueError ''cannot convert float NaN to integer'')
           | _ \<Rightarrow> Inl (OverflowError ''cannot convert float infinity to integer''))
      | JStr s \<Rightarrow>
          (case int_of_str env s of
             None \<Rightarrow> Inl (ValueError (''invalid literal for int() with base 10: '' @ s))
           | Some i \<Rightarrow> Inr i)
      | _ \<Rightarrow> Inl (TypeError
                  ''int() argument must be a string, a bytes-like object or a real number''))"

text \<open>The dict that \<open>_normalize_input\<close> returns: \<open>action\<close>, and the keys that were forwarded.\<close>

record request =
  req_action :: string
  req_id :: "jval option"
  req_limit :: "int option"
  req_event :: "pydict option"
  req_start :: "jval option"
  req_end :: "jval option"

text \<open>\<open>_normalize_input\<close>\<close>

definition normalize_input :: "env \<Rightarrow> jval \<Rightarrow> exn + request" where
  "normalize_input env q =
     and_then
       (case q of
          JStr s \<Rightarrow>
            (case json_loads env s of
               Inl m \<Rightarrow> Inl (ValueError (''Invalid JSON input: '' @ m))
             | Inr v \<Rightarrow> Inr v)
        | JDict d \<Rightarrow> Inr (JDict d)
        | _ \<Rightarrow> Inl (ValueError ''Input must be JSON string or dict.''))
       (\<lambda>parsed.
          case parsed of
            JDict d \<Rightarrow>
              (case dict_get d ''action'' of
                 JStr a \<Rightarrow>
                   if a = [] then Inl (ValueError ''Missing or invalid 'action' field.'')
                   else
                     and_then
                       (case map_of d ''limit'' of
                          None \<Rightarrow> Inr None
                        | Some v \<Rightarrow> and_then (py_int env v) (\<lambda>i. Inr (Some i)))
                       (\<lambda>lim.
                          Inr \<lparr>req_action = lower a,
                               req_id = map_of d ''id'',
                               req_limit = lim,
                               req_event = (case map_of d ''event'' of
                                          Some (JDict ev) \<Rightarrow> Some ev
                                        | _ \<Rightarrow> None),
                               req_start = map_of d ''start'',
                               req_end = map_of d ''end''\<rparr>)
               | _ \<Rightarrow> Inl (ValueError ''Missing or invalid 'action' field.''))
          | _ \<Rightarrow> Inl (AttributeError ''object has no attribute 'get' ''))"

section \<open>The calendar tool: dispatch\<close>

text \<open>\<open>f"{eid}"\<close>\<close>

definition fmt :: "env \<Rightarrow> jval \<Rightarrow> string" where
  "fmt env v = (case v of JStr s \<Rightarrow> s | _ \<Rightarrow> py_str env v)"

text \<open>\<open>q.get("id")\<close>\<close>

definition get_id :: "request \<Rightarrow> jval" where
  "get_id q = (case req_id q of None \<Rightarrow> JNull | Some v \<Rightarrow> v)"

text \<open>\<open>not d\<close> for an optional dict: \<open>None\<close> or empty.\<close>

definition no_dict :: "pydict option \<Rightarrow> bool" where
  "no_dict d = (case d of None \<Rightarrow> True | Some kvs \<Rightarrow> kvs = [])"

definition err :: "string \<Rightarrow> exn + pydict" where
  "err m = format_response ''error'' (Some m) None None"

definition not_found :: "env \<Rightarrow> jval \<Rightarrow> exn + pydict" where
  "not_found env eid = err (''No event with id '' @ fmt env eid @ ''.'')"

text \<open>The branches of \<open>_run\<close>, one per action, in the order of the source.\<close>

definition run_create :: "env \<Rightarrow> calendar \<Rightarrow> request \<Rightarrow> calendar \<times> (exn + pydict)" where
  "run_create env st q =
     (case req_event q of
        None \<Rightarrow> (st, err ''Missing 'event' payload for create.'')
      | Some evt \<Rightarrow>
          if evt = [] then (st, err ''Missing 'event' payload for create.'')
          else (case create_event_in_memory env st evt of
                  Inl e \<Rightarrow> (st, Inl e)
                | Inr (st', stored) \<Rightarrow> (st', format_response ''ok'' None (Some stored) None)))"

definition run_list :: "env \<Rightarrow> calendar \<Rightarrow> request \<Rightarrow> calendar \<times> (exn + pydict)" where
  "run_list env st q = (st, format_response ''ok'' None None (Some (list_events_in_memory st)))"

definition run_get :: "env \<Rightarrow> calendar \<Rightarrow> request \<Rightarrow> calendar \<times> (exn + pydict)" where
  "run_get env st q =
     (let eid = get_id q
      in if \<not> truthy eid then (st, err ''Missing 'id' for get.'')
         else (case get_event_in_memory env st eid of
                 Inl e \<Rightarrow> (st, Inl e)
               | Inr item \<Rightarrow>
                   if no_dict item then (st, not_found env eid)
                   else (st, format_response ''ok'' None item None)))"

definition run_delete :: "env \<Rightarrow> calendar \<Rightarrow> request \<Rightarrow> calendar \<times> (exn + pydict)" where
  "run_delete env st q =
     (let eid = get_id q
      in if \<not> truthy eid then (st, err ''Missing 'id' for delete.'')
         else (case delete_event_in_memory env st eid of
                 Inl e \<Rightarrow> (st, Inl e)
               | Inr (st', ok) \<Rightarrow>
                   if \<not> ok then (st', not_found env eid)
                   else (st', format_response ''ok'' None (Some [(''id'', eid)]) None)))"

definition run_update :: "env \<Rightarrow> calendar \<Rightarrow> request \<Rightarrow> calendar \<times> (exn + pydict)" where
  "run_update env st q =
     (let eid = get_id q
      in case req_event q of
           None \<Rightarrow> (st, err ''Missing 'id' or 'event' for update.'')
         | Some changes \<Rightarrow>
             if \<not> truthy eid \<or> changes = []
             then (st, err ''Missing 'id' or 'event' for update.'')
             else (case update_event_in_memory env st eid changes of
                     (st', Inl e) \<Rightarrow> (st', Inl e)
                   | (st', Inr updated) \<Rightarrow>
                       if no_dict updated then (st', not_found env eid)
                       else (st', format_response ''ok'' None updated None)))"

definition run_find_range :: "env \<Rightarrow> calendar \<Rightarrow> request \<Rightarrow> calendar \<times> (exn + pydict)" where
  "run_find_range env st q =
     (case (req_start q, req_end q) of
        (Some sv, Some ev) \<Rightarrow>
          (st, and_then (parse_datetime env st sv JNull) (\<lambda>start_dt.
               and_then (parse_datetime env st ev JNull) (\<lambda>end_dt.
               and_then (events_in_range env st start_dt end_dt) (\<lambda>items.
                 format_response ''ok'' None None (Some items)))))
      | _ \<Rightarrow> (st, err ''Missing 'start' or 'end' for find_range.''))"

definition run_find_next :: "env \<Rightarrow> calendar \<Rightarrow> request \<Rightarrow> calendar \<times> (exn + pydict)" where
  "run_find_next env st q =
     (st, and_then (find_next_event env st (DT (utcnow env) (Some 0))) (\<lambda>nxt.
            if no_dict nxt then format_response ''ok'' None None (Some [])
            else format_response ''ok'' None nxt None))"

text \<open>The \<open>try\<close> block of \<open>_run\<close>.\<close>

definition run_body :: "env \<Rightarrow> calendar \<Rightarrow> jval \<Rightarrow> calendar \<times> (exn + pydict)" where
  "run_body env st query =
     (case normalize_input env query of
        Inl e \<Rightarrow> (st, Inl e)
      | Inr q \<Rightarrow>
          if req_action q = ''create'' then run_create env st q
          else if req_action q = ''list'' then run_list env st q
          else if req_action q = ''get'' then run_get env st q
          else if req_action q = ''delete'' then run_delete env st q
          else if req_action q = ''update'' then run_update env st q
          else if req_action q = ''find_range'' then run_find_range env st q
          else if req_action q = ''find_next'' then run_find_next env st q
          else (st, err (''Unsupported action '' @ [CHR 0x27] @ req_action q @ [CHR 0x27] @ ''.'')))"

text \<open>
  \<open>_run\<close>: a \<open>ValueError\<close> is reported with its message, any other exception with the
  prefix \<open>Unexpected error:\<close>. \<open>Inl\<close> in the result is an exception that leaves \<open>_run\<close>.
\<close>

definition run :: "env \<Rightarrow> calendar \<Rightarrow> jval \<Rightarrow> calendar \<times> (exn + pydict)" where
  "run env st query =
     (case run_body env st query of
        (st', Inr p) \<Rightarrow> (st', Inr p)
      | (st', Inl (ValueError m)) \<Rightarrow> (st', err m)
      | (st', Inl e) \<Rightarrow> (st', err (''Unexpected error: '' @ exn_msg e)))"

section \<open>The trigonometry tool\<close>

text \<open>
  The functions of \<open>_FUNC_MAP\<close>. \<open>math.asin\<close> and \<open>math.acos\<close> raise \<open>ValueError\<close> outside
  \<open>[-1, 1]\<close>; every function but \<open>math.atan\<close> raises it on an infinity; a NaN goes through.
\<close>

definition func_map :: "string list" where
  "func_map = [''sin'', ''cos'', ''tan'', ''asin'', ''acos'', ''atan'']"

definition in_domain :: "string \<Rightarrow> pyfloat \<Rightarrow> bool" where
  "in_domain f x =
     (case x of
        NaN \<Rightarrow> True
      | Finite r \<Rightarrow> (if f = ''asin'' \<or> f = ''acos'' then \<bar>r\<bar> \<le> 1 else True)
      | _ \<Rightarrow> f = ''atan'')"

definition math_call :: "env \<Rightarrow> string \<Rightarrow> pyfloat \<Rightarrow> exn + pyfloat" where
  "math_call env f x =
     (if in_domain f x then Inr (libm env f x) else Inl (ValueError ''math domain error''))"

text \<open>The dict \<open>normalized\<close> of \<open>TrigonometryTool._normalize_input\<close>.\<close>

record trig_request =
  t_function :: string
  t_value :: pyfloat
  t_unit :: string

definition trig_dict :: "trig_request \<Rightarrow> pydict" where
  "trig_dict n =
     [(''function'', JStr (t_function n)), (''value'', JFloat (t_value n)),
      (''unit'', JStr (t_unit n))]"

text \<open>\<open>float(val)\<close> on a value that passed \<open>isinstance(val, (int, float))\<close>.\<close>

definition py_float :: "env \<Rightarrow> jval \<Rightarrow> exn + pyfloat" where
  "py_float env val =
     (case val of
        JInt i \<Rightarrow>
          (case float_of_int env i of
             None \<Rightarrow> Inl (OverflowError ''int too large to convert to float'')
           | Some x \<Rightarrow> Inr x)
      | JBool b \<Rightarrow> Inr (Finite (if b then 1 else 0))
      | JFloat x \<Rightarrow> Inr x
      | _ \<Rightarrow> Inl (TypeError ''float() argument must be a string or a real number''))"

text \<open>\<open>TrigonometryTool._normalize_input\<close>\<close>

definition trig_normalize_input :: "env \<Rightarrow> jval \<Rightarrow> exn + trig_request" where
  "trig_normalize_input env query =
     and_then
       (case query of
          JStr s \<Rightarrow>
            (case json_loads env s of
               Inl m \<Rightarrow> Inl (ValueError (''Invalid JSON input: '' @ m))
             | Inr v \<Rightarrow> Inr v)
        | JDict d \<Rightarrow> Inr (JDict d)
        | _ \<Rightarrow> Inl (ValueError ''Input must be a JSON string or a dict.''))
       (\<lambda>parsed.
          case parsed of
            JDict d \<Rightarrow>
              (case dict_get d ''function'' of
                 JStr func \<Rightarrow>
                   if func = []
                   then Inl (ValueError ''Missing or invalid 'function' (must be a string).'')
                   else
                     and_then
                       (case dict_get d ''value'' of
                          JInt i \<Rightarrow> Inr (JInt i)
                        | JBool b \<Rightarrow> Inr (JBool b)
                        | JFloat x \<Rightarrow> Inr (JFloat x)
                        | _ \<Rightarrow> Inl (ValueError ''Missing or invalid 'value' (must be a number).''))
                       (\<lambda>val.
                     and_then
                       (case (case map_of d ''unit'' of None \<Rightarrow> JStr ''radians'' | Some u \<Rightarrow> u) of
                          JStr u \<Rightarrow>
                            if lower u = ''radians'' \<or> lower u = ''degrees'' then Inr (lower u)
                            else Inl (ValueError ''unit must be 'radians' or 'degrees'.'')
                        | _ \<Rightarrow> Inl (ValueError
                                   ([CHR 0x27] @ ''unit' must be a string 'radians' or 'degrees' if provided.'')))
                       (\<lambda>unit.
                     and_then (py_float env val)
                       (\<lambda>x. Inr \<lparr>t_function = lower func, t_value = x, t_unit = unit\<rparr>)))
               | _ \<Rightarrow> Inl (ValueError ''Missing or invalid 'function' (must be a string).''))
          | _ \<Rightarrow> Inl (AttributeError ''object has no attribute 'get' ''))"

text \<open>\<open>TrigonometryTool._compute\<close>: the dict with \<open>result\<close>, \<open>raw_result\<close> and \<open>unit\<close>.\<close>

definition trig_compute :: "env \<Rightarrow> string \<Rightarrow> pyfloat \<Rightarrow> string \<Rightarrow> exn + pydict" where
  "trig_compute env func v unit =
     (if func \<notin> set func_map
      then Inl (ValueError (''Function '' @ [CHR 0x27] @ func @ [CHR 0x27] @
             '' not supported. Supported: ['sin', 'cos', 'tan', 'asin', 'acos', 'atan']''))
      else
        (let is_inverse = (func = ''asin'' \<or> func = ''acos'' \<or> func = ''atan'');
             input_for_math = (if \<not> is_inverse \<and> unit = ''degrees'' then radians env v else v)
         in and_then (math_call env func input_for_math) (\<lambda>raw_result.
              Inr (if is_inverse
                   then (if unit = ''degrees''
                         then [(''result'', JFloat (degrees env raw_result)),
                               (''raw_result'', JFloat raw_result),
                               (''unit'', JStr ''degrees'')]
                         else [(''result'', JFloat raw_result),
                               (''raw_result'', JFloat raw_result),
                               (''unit'', JStr ''radians'')])
                   else [(''result'', JFloat raw_result),
                         (''raw_result'', JFloat raw_result),
                         (''unit'', JNull)]))))"

text \<open>
  \<open>TrigonometryTool._format_response\<close>: the payload whose \<open>json.dumps\<close> text is returned.
  \<open>None if error else ...\<close> tests the truth value of \<open>error\<close>, so an empty message counts
  as no error.
\<close>

definition trig_format_response ::
  "string \<Rightarrow> jval \<Rightarrow> pydict \<Rightarrow> string option \<Rightarrow> exn + pydict" where
  "trig_format_response func original_input compute_out error =
     (let is_error = (case error of None \<Rightarrow> False | Some m \<Rightarrow> m \<noteq> []);
          response =
            [(''function'', JStr func),
             (''input'', original_input),
             (''result'', (if is_error then JNull else dict_get compute_out ''result'')),
             (''unit'', (if is_error then JNull else dict_get compute_out ''unit'')),
             (''raw_result'', (if is_error then JNull else dict_get compute_out ''raw_result'')),
             (''error'', (case error of None \<Rightarrow> JNull | Some m \<Rightarrow> JStr m))]
      in if json_serializable (JDict response) then Inr response
         else Inl (TypeError ''Object is not JSON serializable''))"

text \<open>\<open>{"raw_query": query} if isinstance(query, str) else query\<close>\<close>

definition raw_input :: "jval \<Rightarrow> jval" where
  "raw_input query = (case query of JStr s \<Rightarrow> JDict [(''raw_query'', JStr s)] | _ \<Rightarrow> query)"

text \<open>
  The two \<open>except\<close> clauses of \<open>TrigonometryTool._run\<close>; \<open>normalized\<close> is \<open>None\<close> when
  the exception came from \<open>_normalize_input\<close>.
\<close>

definition trig_handle :: "jval \<Rightarrow> trig_request option \<Rightarrow> exn \<Rightarrow> exn + pydict" where
  "trig_handle query normalized e =
     (case e of
        ValueError m \<Rightarrow>
          (case normalized of
             Some n \<Rightarrow> trig_format_response (t_function n) (JDict (trig_dict n)) [] (Some m)
           | None \<Rightarrow> trig_format_response ''unknown'' (raw_input query) [] (Some m))
      | _ \<Rightarrow> trig_format_response ''unknown'' (raw_input query) []
               (Some (''Unexpected error: '' @ exn_msg e)))"

text \<open>
  \<open>TrigonometryTool._run\<close>. \<open>Inl\<close> in the result is an exception that leaves \<open>_run\<close>: one
  raised inside an \<open>except\<close> clause is not caught by the other.
\<close>

definition trig_run :: "env \<Rightarrow> jval \<Rightarrow> exn + pydict" where
  "trig_run env query =
     (case trig_normalize_input env query of
        Inl e \<Rightarrow> trig_handle query None e
      | Inr n \<Rightarrow>
          (case and_then (trig_compute env (t_function n) (t_value n) (t_unit n))
                  (\<lambda>compute_out.
                     trig_format_response (t_function n) (JDict (trig_dict n)) compute_out None) of
             Inl e \<Rightarrow> trig_handle query (Some n) e
           | Inr p \<Rightarrow> Inr p))"

section \<open>A concrete environment for the examples\<close>

text \<open>
  The library functions, given at the arguments the examples below use: two ISO texts
  with a \<open>Z\<close>, one text without a zone, the zones \<open>UTC\<close> and \<open>Asia/Kolkata\<close> (a fixed
  offset of five and a half hours). \<open>dateutil\<close> rejects \<open>garbage\<close>, as here. The examples
  pass dicts, so \<open>json_loads\<close> is not called.
\<close>

definition ex_parse :: "string \<Rightarrow> string + datetime" where
  "ex_parse s =
     (if s = ''2025-09-03T15:00:00Z'' then Inr (DT 63892508400000000 (Some 0))
      else if s = ''2025-09-04T10:00:00Z'' then Inr (DT 63892576800000000 (Some 0))
      else if s = ''2025-09-03 20:30'' then Inr (DT 63892528200000000 None)
      else Inl (''Unknown string format: '' @ s))"

definition ex_iso_wall :: "int \<Rightarrow> string" where
  "ex_iso_wall w =
     (if w = 63892508400000000 then ''2025-09-03T15:00:00''
      else if w = 63892576800000000 then ''2025-09-04T10:00:00''
      else ''0001-01-01T00:00:00'')"

definition ex_zoneinfo :: "string \<Rightarrow> (int \<Rightarrow> int) option" where
  "ex_zoneinfo key =
     (if key = ''UTC'' then Some (\<lambda>w. 0)
      else if key = ''Asia/Kolkata'' then Some (\<lambda>w. 19800000000)
      else None)"

definition ex_env :: env where
  "ex_env =
     \<lparr>json_loads = (\<lambda>s. Inl ''Expecting value''),
      int_of_str = (\<lambda>s. if s = ''10'' then Some 10 else None),
      dateutil_parse = ex_parse,
      isoparse = ex_parse,
      zoneinfo = ex_zoneinfo,
      local_offset = (\<lambda>w. 0),
      iso_wall = ex_iso_wall,
      py_str = (\<lambda>v. ''None''),
      sql_adapt = (\<lambda>v. None),
      uuid4 = ''0b0e7a52-6f0c-4a58-9c58-2f1d5a3c7e11'',
      utcnow = 63892540000000000,
      float_of_int = (\<lambda>i. Some (Finite (of_int i))),
      libm = (\<lambda>f x. NaN),
      radians = (\<lambda>x. x),
      degrees = (\<lambda>x. x)\<rparr>"

definition ex_event :: "string \<Rightarrow> string \<Rightarrow> jval \<Rightarrow> pydict" where
  "ex_event i s e =
     [(''id'', JStr i), (''title'', JStr ''Standup''), (''description'', JNull),
      (''start'', JStr s), (''end'', e), (''timezone'', JStr ''UTC''),
      (''metadata'', JDict [])]"

text \<open>An in-memory store with one event, the same store on SQLite, and an empty store.\<close>

definition ex_mem :: calendar where
  "ex_mem =
     \<lparr>default_timezone = ''UTC'', use_sqlite = False,
      in_memory = [(''e1'', ex_event ''e1'' ''2025-09-03T15:00:00Z'' JNull)],
      events_table = []\<rparr>"

definition ex_sql :: calendar where
  "ex_sql =
     \<lparr>default_timezone = ''UTC'', use_sqlite = True,
      in_memory = [],
      events_table =
        [\<lparr>col_id = Some ''e1'', col_title = Some ''Standup'', col_description = None,
          col_start = Some ''2025-09-03T15:00:00Z'', col_end = None,
          col_timezone = Some ''UTC'', col_metadata = Some (JDict [])\<rparr>]\<rparr>"

definition ex_empty :: calendar where
  "ex_empty =
     \<lparr>default_timezone = ''UTC'', use_sqlite = False, in_memory = [], events_table = []\<rparr>"

text \<open>A store with two events, the later one first.\<close>

definition ex_two :: calendar where
  "ex_two =
     \<lparr>default_timezone = ''UTC'', use_sqlite = False,
      in_memory = [(''e2'', ex_event ''e2'' ''2025-09-04T10:00:00Z'' JNull),
                   (''e1'', ex_event ''e1'' ''2025-09-03T15:00:00Z'' JNull)],
      events_table = []\<rparr>"

text \<open>The trigonometry request \<open>acos(2)\<close> and the payload the tool answers it with.\<close>

definition ex_acos :: jval where
  "ex_acos = JDict [(''function'', JStr ''acos''), (''value'', JInt 2), (''unit'', JStr ''radians'')]"

definition ex_acos_answer :: pydict where
  "ex_acos_answer =
     [(''function'', JStr ''acos''),
      (''input'', JDict [(''function'', JStr ''acos''), (''value'', JFloat (Finite 2)),
                         (''unit'', JStr ''radians'')]),
      (''result'', JNull), (''unit'', JNull), (''raw_result'', JNull),
      (''error'', JStr ''math domain error'')]"

text \<open>An update of the stored event with a new start that parses and an end that does not.\<close>

definition ex_bad_update :: jval where
  "ex_bad_update =
     JDict [(''action'', JStr ''update''), (''id'', JStr ''e1''),
            (''event'', JDict [(''start'', JStr ''2025-09-04T10:00:00Z''),
                               (''end'', JStr ''garbage'')])]"

section \<open>What the specification speaks of\<close>

text \<open>The envelope \<open>{"status": "error", "error": m}\<close>, with no event and a count of 0.\<close>

definition error_envelope :: "string \<Rightarrow> pydict" where
  "error_envelope m =
     [(''status'', JStr ''error''), (''error'', JStr m), (''event'', JNull),
      (''events'', JNull), (''count'', JInt 0)]"

text \<open>An event with this id is held by the active backend.\<close>

definition has_id :: "calendar \<Rightarrow> string \<Rightarrow> bool" where
  "has_id st s =
     (if use_sqlite st then Some s \<in> set (map col_id (events_table st))
      else s \<in> set (map fst (in_memory st)))"

text \<open>
  The parsed \<open>start\<close> of a stored event, and its instant: the key that \<open>find_range\<close> and
  \<open>find_next\<close> order by. (An event whose \<open>start\<close> does not parse has no key; the queries
  raise on it.)
\<close>

definition start_datetime :: "env \<Rightarrow> pydict \<Rightarrow> datetime" where
  "start_datetime env e = (case event_start env e of Inr d \<Rightarrow> d | Inl x \<Rightarrow> DT 0 None)"

definition start_key :: "env \<Rightarrow> pydict \<Rightarrow> int" where
  "start_key env e = instant (start_datetime env e)"

text \<open>The \<open>start\<close> of the event lies in \<open>[a, b]\<close>; its \<open>end\<close> is present and lies in \<open>[a, b]\<close>.\<close>

definition start_in :: "env \<Rightarrow> int \<Rightarrow> int \<Rightarrow> pydict \<Rightarrow> bool" where
  "start_in env a b e =
     (case event_start env e of
        Inr d \<Rightarrow> a \<le> instant d \<and> instant d \<le> b
      | Inl x \<Rightarrow> False)"

definition end_in :: "env \<Rightarrow> int \<Rightarrow> int \<Rightarrow> pydict \<Rightarrow> bool" where
  "end_in env a b e =
     (case event_end env e of
        Inr (Some d) \<Rightarrow> a \<le> instant d \<and> instant d \<le> b
      | _ \<Rightarrow> False)"

definition in_window :: "env \<Rightarrow> int \<Rightarrow> int \<Rightarrow> pydict \<Rightarrow> bool" where
  "in_window env a b e = (start_in env a b e \<or> end_in env a b e)"

text \<open>
  The stored texts of the event parse, to aware datetimes: so it is for every event the
  tool has stored, whose texts end in \<open>Z\<close>.
\<close>

definition parses_aware :: "env \<Rightarrow> pydict \<Rightarrow> bool" where
  "parses_aware env e =
     ((case event_start env e of Inr d \<Rightarrow> utcoffset d \<noteq> None | Inl x \<Rightarrow> False)
      \<and> (case event_end env e of
            Inr (Some d) \<Rightarrow> utcoffset d \<noteq> None
          | Inr None \<Rightarrow> True
          | Inl x \<Rightarrow> False))"

text \<open>What the specification says of \<open>count\<close>, read off an envelope's own fields.\<close>

definition count_agrees :: "pydict \<Rightarrow> bool" where
  "count_agrees p =
     (case map_of p ''events'' of
        Some (JList es) \<Rightarrow> map_of p ''count'' = Some (JInt (int (length es)))
      | Some JNull \<Rightarrow>
          (case map_of p ''event'' of
             Some JNull \<Rightarrow> map_of p ''count'' = Some (JInt 0)
           | Some (JDict e) \<Rightarrow> map_of p ''count'' = Some (JInt 1)
           | _ \<Rightarrow> False)
      | _ \<Rightarrow> False)"

lemma format_response_count:
  "format_response status error event events = Inr p \<Longrightarrow> count_agrees p"
  by (auto simp: format_response_def count_agrees_def Let_def
           split: if_splits option.splits)

section \<open>Basic facts\<close>

lemma and_then_Inl [simp]: "and_then (Inl e) f = Inl e"
  by (simp add: and_then_def)

lemma and_then_Inr [simp]: "and_then (Inr x) f = f x"
  by (simp add: and_then_def)

lemma and_then_eq_Inr:
  "and_then m f = Inr y \<longleftrightarrow> (\<exists>x. m = Inr x \<and> f x = Inr y)"
  by (cases m) simp_all

lemma err_envelope: "err m = Inr (error_envelope m)"
  by (simp add: err_def format_response_def error_envelope_def)

lemma not_found_envelope:
  "not_found env (JStr s) = Inr (error_envelope (''No event with id '' @ s @ ''.''))"
  by (simp add: not_found_def err_envelope fmt_def)

lemma run_of_body_Inr: "run_body env st query = (st', Inr p) \<Longrightarrow> run env st query = (st', Inr p)"
  by (simp add: run_def)

lemma run_body_get:
  "normalize_input env query = Inr q \<Longrightarrow> req_action q = ''get'' \<Longrightarrow>
   run_body env st query = run_get env st q"
  by (simp add: run_body_def)

lemma run_body_delete:
  "normalize_input env query = Inr q \<Longrightarrow> req_action q = ''delete'' \<Longrightarrow>
   run_body env st query = run_delete env st q"
  by (simp add: run_body_def)

lemma run_body_update:
  "normalize_input env query = Inr q \<Longrightarrow> req_action q = ''update'' \<Longrightarrow>
   run_body env st query = run_update env st q"
  by (simp add: run_body_def)

section \<open>Requests with a falsy id\<close>

text \<open>
  Claim C10. A get, delete or update request whose \<open>id\<close> is present but falsy (the empty
  string, \<open>0\<close>, \<open>null\<close>, an empty list or dict) is answered with the \<open>Missing 'id'\<close> error
  of its action, whatever the store holds, and the store is left as it was: the lookup is
  never made, so the answer is never \<open>No event with id ...\<close>.
\<close>

theorem falsy_id_is_missing_id:
  assumes "normalize_input env query = Inr q" and "req_id q = Some v" and "\<not> truthy v"
  shows "(req_action q = ''get'' \<longrightarrow>
            run env st query = (st, Inr (error_envelope ''Missing 'id' for get.'')))
       \<and> (req_action q = ''delete'' \<longrightarrow>
            run env st query = (st, Inr (error_envelope ''Missing 'id' for delete.'')))
       \<and> (req_action q = ''update'' \<longrightarrow>
            run env st query = (st, Inr (error_envelope ''Missing 'id' or 'event' for update.'')))"
proof (intro conjI impI)
  have falsy: "\<not> truthy (get_id q)"
    using assms by (simp add: get_id_def)
  show "run env st query = (st, Inr (error_envelope ''Missing 'id' for get.''))"
    if "req_action q = ''get''"
    using run_body_get [OF assms(1) that, of st] falsy
    by (intro run_of_body_Inr) (simp add: run_get_def err_envelope)
  show "run env st query = (st, Inr (error_envelope ''Missing 'id' for delete.''))"
    if "req_action q = ''delete''"
    using run_body_delete [OF assms(1) that, of st] falsy
    by (intro run_of_body_Inr) (simp add: run_delete_def err_envelope)
  show "run env st query = (st, Inr (error_envelope ''Missing 'id' or 'event' for update.''))"
    if "req_action q = ''update''"
    using run_body_update [OF assms(1) that, of st] falsy
    by (intro run_of_body_Inr) (simp add: run_update_def err_envelope Let_def split: option.splits)
qed

theorem falsy_id_is_missing_id_witness:
  "normalize_input ex_env (JDict [(''action'', JStr ''get''), (''id'', JStr '''')]) =
     Inr \<lparr>req_action = ''get'', req_id = Some (JStr ''''), req_limit = None,
          req_event = None, req_start = None, req_end = None\<rparr>
   \<and> \<not> truthy (JStr '''')
   \<and> run ex_env ex_mem (JDict [(''action'', JStr ''get''), (''id'', JStr '''')]) =
       (ex_mem, Inr (error_envelope ''Missing 'id' for get.''))"
proof -
  let ?q = "\<lparr>req_action = ''get'', req_id = Some (JStr ''''), req_limit = None,
            req_event = None, req_start = None, req_end = None\<rparr>"
  have n: "normalize_input ex_env (JDict [(''action'', JStr ''get''), (''id'', JStr '''')]) = Inr ?q"
    by code_simp
  have i: "req_id ?q = Some (JStr '''')" by simp
  have f: "\<not> truthy (JStr '''')" by simp
  from falsy_id_is_missing_id [OF n i f, of ex_mem] n f show ?thesis by simp
qed

section \<open>Requests for an id the store does not hold\<close>

lemma get_event_absent: "\<not> has_id st s \<Longrightarrow> get_event_in_memory env st (JStr s) = Inr None"
  by (auto simp: has_id_def get_event_in_memory_def persist_get_def sql_bind_def mem_lookup_def
                 find_None_iff map_of_eq_None_iff image_iff
           split: if_splits)

lemma delete_event_absent:
  assumes "\<not> has_id st s"
  shows "delete_event_in_memory env st (JStr s) = Inr (st, False)"
proof (cases "use_sqlite st")
  case True
  with assms show ?thesis
    using get_event_absent [OF assms, of env]
    by (simp add: delete_event_in_memory_def get_event_in_memory_def)
next
  case False
  with assms have "s \<notin> fst ` set (in_memory st)"
    by (simp add: has_id_def)
  with False show ?thesis
    by (simp add: delete_event_in_memory_def mem_lookup_def map_of_eq_None_iff)
qed

lemma delete_event_removes:
  assumes "delete_event_in_memory env st (JStr s) = Inr (st1, ok)"
  shows "\<not> has_id st1 s"
proof (cases "use_sqlite st")
  case sqlite: True
  show ?thesis
  proof (cases "persist_get env st (JStr s) = Inr None")
    case True
    with sqlite assms have "st1 = st"
      by (simp add: delete_event_in_memory_def)
    moreover from True sqlite have "\<not> has_id st s"
      by (auto simp: persist_get_def sql_bind_def has_id_def find_None_iff)
    ultimately show ?thesis by simp
  next
    case False
    with sqlite assms
    have "st1 = st\<lparr>events_table := filter (\<lambda>old. col_id old \<noteq> Some s) (events_table st)\<rparr>"
      by (auto simp: delete_event_in_memory_def persist_get_def persist_delete_def sql_bind_def)
    with sqlite show ?thesis
      by (auto simp: has_id_def)
  qed
next
  case False
  with assms have "st1 = st\<lparr>in_memory := AList.delete s (in_memory st)\<rparr>"
    by (auto simp: delete_event_in_memory_def mem_lookup_def)
  with False show ?thesis
    using delete_notin_dom [of s "in_memory st"] by (simp add: has_id_def)
qed

lemma run_get_unknown:
  assumes "normalize_input env query = Inr q" and "req_id q = Some (JStr s)" and "s \<noteq> []"
      and "\<not> has_id st s" and "req_action q = ''get''"
  shows "run env st query = (st, Inr (error_envelope (''No event with id '' @ s @ ''.'')))"
  using run_body_get [OF assms(1) assms(5), of st] assms(2,3) get_event_absent [OF assms(4), of env]
  by (intro run_of_body_Inr)
     (simp add: run_get_def get_id_def no_dict_def not_found_envelope)

lemma run_delete_unknown:
  assumes "normalize_input env query = Inr q" and "req_id q = Some (JStr s)" and "s \<noteq> []"
      and "\<not> has_id st s" and "req_action q = ''delete''"
  shows "run env st query = (st, Inr (error_envelope (''No event with id '' @ s @ ''.'')))"
  using run_body_delete [OF assms(1) assms(5), of st] assms(2,3)
        delete_event_absent [OF assms(4), of env]
  by (intro run_of_body_Inr)
     (simp add: run_delete_def get_id_def not_found_envelope)

text \<open>
  Claim C8, as the code has it. The claim speaks of every id that is not in the store; the
  empty string is such an id, and a get request for it is answered with
  \<open>Missing 'id' for get.\<close>, because \<open>_run\<close> tests \<open>if not eid\<close> before it looks the id up.
\<close>

theorem get_empty_id_counterexample:
  "\<not> has_id ex_mem ''''
   \<and> run ex_env ex_mem (JDict [(''action'', JStr ''get''), (''id'', JStr '''')]) =
       (ex_mem, Inr (error_envelope ''Missing 'id' for get.''))
   \<and> error_envelope ''Missing 'id' for get.'' \<noteq> error_envelope ''No event with id .''"
proof (intro conjI)
  show "\<not> has_id ex_mem ''''"
    by (simp add: has_id_def ex_mem_def)
  show "run ex_env ex_mem (JDict [(''action'', JStr ''get''), (''id'', JStr '''')]) =
       (ex_mem, Inr (error_envelope ''Missing 'id' for get.''))"
    by code_simp
  show "error_envelope ''Missing 'id' for get.'' \<noteq> error_envelope ''No event with id .''"
    by (simp add: error_envelope_def)
qed

text \<open>
  Claim C8, amended. For every non-empty string id that the store does not hold, a get
  request and a delete request both return exactly the envelope with status \<open>error\<close>,
  error \<open>No event with id <id>.\<close>, no event and a count of 0, and leave the store as it
  was. After any delete of an id the store no longer holds it, so a second delete returns
  that envelope too, never a success.
\<close>

theorem unknown_id_is_not_found:
  assumes "normalize_input env query = Inr q" and "req_id q = Some (JStr s)" and "s \<noteq> []"
  shows "(\<not> has_id st s \<and> req_action q = ''get'' \<longrightarrow>
            run env st query = (st, Inr (error_envelope (''No event with id '' @ s @ ''.''))))
       \<and> (\<not> has_id st s \<and> req_action q = ''delete'' \<longrightarrow>
            run env st query = (st, Inr (error_envelope (''No event with id '' @ s @ ''.''))))
       \<and> (\<forall>st0 ok. delete_event_in_memory env st0 (JStr s) = Inr (st, ok) \<and> req_action q = ''delete'' \<longrightarrow>
            run env st query = (st, Inr (error_envelope (''No event with id '' @ s @ ''.''))))"
  using run_get_unknown [OF assms] run_delete_unknown [OF assms] delete_event_removes
  by blast

theorem unknown_id_is_not_found_witness:
  "normalize_input ex_env (JDict [(''action'', JStr ''delete''), (''id'', JStr ''e1'')]) =
     Inr \<lparr>req_action = ''delete'', req_id = Some (JStr ''e1''), req_limit = None,
          req_event = None, req_start = None, req_end = None\<rparr>
   \<and> delete_event_in_memory ex_env ex_mem (JStr ''e1'') = Inr (ex_empty, True)
   \<and> \<not> has_id ex_empty ''e1''
   \<and> run ex_env ex_empty (JDict [(''action'', JStr ''delete''), (''id'', JStr ''e1'')]) =
       (ex_empty, Inr (error_envelope ''No event with id e1.''))"
proof -
  let ?q = "\<lparr>req_action = ''delete'', req_id = Some (JStr ''e1''), req_limit = None,
            req_event = None, req_start = None, req_end = None\<rparr>"
  have n: "normalize_input ex_env (JDict [(''action'', JStr ''delete''), (''id'', JStr ''e1'')]) = Inr ?q"
    by code_simp
  have i: "req_id ?q = Some (JStr ''e1'')" by simp
  have s: "''e1'' \<noteq> []" by simp
  have d: "delete_event_in_memory ex_env ex_mem (JStr ''e1'') = Inr (ex_empty, True)"
    by code_simp
  have a: "\<not> has_id ex_empty ''e1''"
    by (simp add: has_id_def ex_empty_def)
  from unknown_id_is_not_found [OF n i s, of ex_empty] n d a show ?thesis
    by simp
qed

section \<open>The limit of a request\<close>

lemma normalize_input_limit:
  assumes "query = JDict d \<or> (\<exists>s. query = JStr s \<and> json_loads env s = Inr (JDict d))"
      and "dict_get d ''action'' = JStr a" and "a \<noteq> []" and "map_of d ''limit'' = Some v"
  shows "normalize_input env query =
           (case py_int env v of
              Inl e \<Rightarrow> Inl e
            | Inr i \<Rightarrow>
                Inr \<lparr>req_action = lower a, req_id = map_of d ''id'', req_limit = Some i,
                     req_event = (case map_of d ''event'' of Some (JDict ev) \<Rightarrow> Some ev | _ \<Rightarrow> None),
                     req_start = map_of d ''start'', req_end = map_of d ''end''\<rparr>)"
  using assms by (auto simp: normalize_input_def split: sum.splits)

lemma run_normalize_error:
  assumes "normalize_input env query = Inl e"
  shows "run env st query =
           (st, Inr (error_envelope (case e of ValueError m \<Rightarrow> m
                                     | _ \<Rightarrow> ''Unexpected error: '' @ exn_msg e)))"
  using assms by (cases e) (simp_all add: run_def run_body_def err_envelope)

text \<open>
  Claim C5, as the code has it. \<open>int(None)\<close> raises \<open>TypeError\<close>, not \<open>ValueError\<close>: it is
  caught by the last \<open>except\<close> clause of \<open>_run\<close> and reported with the prefix
  \<open>Unexpected error:\<close>, not as a validation error.
\<close>

theorem limit_null_counterexample:
  "normalize_input ex_env (JDict [(''action'', JStr ''list''), (''limit'', JNull)]) =
     Inl (TypeError ''int() argument must be a string, a bytes-like object or a real number'')
   \<and> run ex_env ex_mem (JDict [(''action'', JStr ''list''), (''limit'', JNull)]) =
       (ex_mem, Inr (error_envelope
          ''Unexpected error: int() argument must be a string, a bytes-like object or a real number''))"
  by (intro conjI; code_simp)

text \<open>
  Claim C5, amended. For a payload with an action and a \<open>limit\<close> key: a value that \<open>int\<close>
  accepts is coerced; a value on which \<open>int\<close> raises \<open>ValueError\<close> (a string that is not an
  integer literal) is reported as the validation error with status \<open>error\<close> and the
  message of the exception; a value on which it raises another exception (\<open>TypeError\<close> for
  null, a list or a dict) is reported with status \<open>error\<close> and the message prefixed by
  \<open>Unexpected error:\<close>. In each case the store is unchanged.
\<close>

theorem limit_coerced_or_reported:
  assumes "query = JDict d \<or> (\<exists>s. query = JStr s \<and> json_loads env s = Inr (JDict d))"
      and "dict_get d ''action'' = JStr a" and "a \<noteq> []" and "map_of d ''limit'' = Some v"
  shows "(\<forall>i. py_int env v = Inr i \<longrightarrow>
            (\<exists>q. normalize_input env query = Inr q \<and> req_limit q = Some i))
       \<and> (\<forall>m. py_int env v = Inl (ValueError m) \<longrightarrow>
            run env st query = (st, Inr (error_envelope m)))
       \<and> (\<forall>e. py_int env v = Inl e \<and> (\<forall>m. e \<noteq> ValueError m) \<longrightarrow>
            run env st query = (st, Inr (error_envelope (''Unexpected error: '' @ exn_msg e))))
       \<and> (\<forall>s. v = JStr s \<and> int_of_str env s = None \<longrightarrow>
            (\<exists>m. py_int env v = Inl (ValueError m)))
       \<and> (v = JNull \<or> (\<exists>xs. v = JList xs) \<or> (\<exists>kvs. v = JDict kvs) \<longrightarrow>
            (\<exists>m. py_int env v = Inl (TypeError m)))"
proof (intro conjI allI impI)
  note n = normalize_input_limit [OF assms]
  show "\<exists>q. normalize_input env query = Inr q \<and> req_limit q = Some i"
    if "py_int env v = Inr i" for i
    using n that by simp
  show "run env st query = (st, Inr (error_envelope m))"
    if "py_int env v = Inl (ValueError m)" for m
  proof -
    from n that have "normalize_input env query = Inl (ValueError m)" by simp
    from run_normalize_error [OF this] show ?thesis by simp
  qed
  show "run env st query = (st, Inr (error_envelope (''Unexpected error: '' @ exn_msg e)))"
    if "py_int env v = Inl e \<and> (\<forall>m. e \<noteq> ValueError m)" for e
  proof -
    from n that have "normalize_input env query = Inl e" by simp
    from run_normalize_error [OF this] that show ?thesis by (cases e) simp_all
  qed
  show "\<exists>m. py_int env v = Inl (ValueError m)"
    if "v = JStr s \<and> int_of_str env s = None" for s
    using that by (simp add: py_int_def)
  show "\<exists>m. py_int env v = Inl (TypeError m)"
    if "v = JNull \<or> (\<exists>xs. v = JList xs) \<or> (\<exists>kvs. v = JDict kvs)"
    using that by (auto simp: py_int_def)
qed

theorem limit_coerced_or_reported_witness:
  "dict_get [(''action'', JStr ''list''), (''limit'', JStr ''ten'')] ''action'' = JStr ''list''
   \<and> map_of [(''action'', JStr ''list''), (''limit'', JStr ''ten'')] ''limit'' = Some (JStr ''ten'')
   \<and> py_int ex_env (JStr ''ten'') = Inl (ValueError ''invalid literal for int() with base 10: ten'')
   \<and> run ex_env ex_mem (JDict [(''action'', JStr ''list''), (''limit'', JStr ''ten'')]) =
       (ex_mem, Inr (error_envelope ''invalid literal for int() with base 10: ten''))"
proof -
  let ?d = "[(''action'', JStr ''list''), (''limit'', JStr ''ten'')]"
  have q: "JDict ?d = JDict ?d \<or> (\<exists>s. JDict ?d = JStr s \<and> json_loads ex_env s = Inr (JDict ?d))"
    by simp
  have a: "dict_get ?d ''action'' = JStr ''list''" by (simp add: dict_get_def)
  have n: "''list'' \<noteq> []" by simp
  have l: "map_of ?d ''limit'' = Some (JStr ''ten'')" by simp
  have p: "py_int ex_env (JStr ''ten'') = Inl (ValueError ''invalid literal for int() with base 10: ten'')"
    by (simp add: py_int_def ex_env_def)
  from limit_coerced_or_reported [OF q a n l, where st = ex_mem] a l p show ?thesis
    by blast
qed

section \<open>The count of an envelope\<close>

lemma err_count: "err m = Inr p \<Longrightarrow> count_agrees p"
  by (simp add: err_def format_response_count)

lemma not_found_count: "not_found env eid = Inr p \<Longrightarrow> count_agrees p"
  by (simp add: not_found_def err_count)

lemma run_create_count: "run_create env st q = (st', Inr p) \<Longrightarrow> count_agrees p"
  by (auto simp: run_create_def split: option.splits if_splits sum.splits prod.splits
           dest: err_count format_response_count)

lemma run_list_count: "run_list env st q = (st', Inr p) \<Longrightarrow> count_agrees p"
  by (auto simp: run_list_def dest: format_response_count)

lemma run_get_count: "run_get env st q = (st', Inr p) \<Longrightarrow> count_agrees p"
  by (auto simp: run_get_def Let_def split: if_splits sum.splits
           dest: err_count not_found_count format_response_count)

lemma run_delete_count: "run_delete env st q = (st', Inr p) \<Longrightarrow> count_agrees p"
  by (auto simp: run_delete_def Let_def split: if_splits sum.splits prod.splits
           dest: err_count not_found_count format_response_count)

lemma run_update_count: "run_update env st q = (st', Inr p) \<Longrightarrow> count_agrees p"
  by (auto simp: run_update_def Let_def split: option.splits if_splits sum.splits prod.splits
           dest: err_count not_found_count format_response_count)

lemma run_find_range_count: "run_find_range env st q = (st', Inr p) \<Longrightarrow> count_agrees p"
  by (auto simp: run_find_range_def and_then_eq_Inr split: option.splits prod.splits
           dest: err_count format_response_count)

lemma run_find_next_count: "run_find_next env st q = (st', Inr p) \<Longrightarrow> count_agrees p"
  by (auto simp: run_find_next_def and_then_eq_Inr split: if_splits
           dest: format_response_count)

lemma run_body_count: "run_body env st query = (st', Inr p) \<Longrightarrow> count_agrees p"
  by (auto simp: run_body_def split: sum.splits if_splits
           dest: run_create_count run_list_count run_get_count run_delete_count
                 run_update_count run_find_range_count run_find_next_count err_count)

text \<open>
  Claim C9. In every envelope that \<open>_run\<close> returns, \<open>count\<close> is the number of items of
  \<open>events\<close> when \<open>events\<close> is not null, else 1 when \<open>event\<close> is not null, else 0.
\<close>

theorem envelope_count:
  "run env st query = (st', Inr p) \<Longrightarrow> count_agrees p"
  by (auto simp: run_def split: prod.splits sum.splits exn.splits
           dest: run_body_count err_count)

theorem envelope_count_witness:
  "run ex_env ex_two (JDict [(''action'', JStr ''list'')]) =
     (ex_two, Inr [(''status'', JStr ''ok''), (''error'', JNull), (''event'', JNull),
                   (''events'', JList [JDict (ex_event ''e2'' ''2025-09-04T10:00:00Z'' JNull),
                                      JDict (ex_event ''e1'' ''2025-09-03T15:00:00Z'' JNull)]),
                   (''count'', JInt 2)])
   \<and> count_agrees [(''status'', JStr ''ok''), (''error'', JNull), (''event'', JNull),
                   (''events'', JList [JDict (ex_event ''e2'' ''2025-09-04T10:00:00Z'' JNull),
                                      JDict (ex_event ''e1'' ''2025-09-03T15:00:00Z'' JNull)]),
                   (''count'', JInt 2)]"
proof -
  have r: "run ex_env ex_two (JDict [(''action'', JStr ''list'')]) =
     (ex_two, Inr [(''status'', JStr ''ok''), (''error'', JNull), (''event'', JNull),
                   (''events'', JList [JDict (ex_event ''e2'' ''2025-09-04T10:00:00Z'' JNull),
                                      JDict (ex_event ''e1'' ''2025-09-03T15:00:00Z'' JNull)]),
                   (''count'', JInt 2)])"
    by code_simp
  from envelope_count [OF r] r show ?thesis by simp
qed

section \<open>The trigonometry tool: a value outside the domain\<close>

lemma trig_domain_error:
  assumes "f = ''asin'' \<or> f = ''acos''"
      and "v = PInf \<or> v = NInf \<or> (\<exists>r. v = Finite r \<and> 1 < \<bar>r\<bar>)"
  shows "trig_compute env f v u = Inl (ValueError ''math domain error'')"
  using assms
  by (auto simp: trig_compute_def func_map_def math_call_def in_domain_def Let_def)

text \<open>
  Claim C6, as the code has it. The answer to \<open>acos(2)\<close> carries the message in \<open>error\<close>,
  but the envelope of the trigonometry tool has no \<open>status\<close> field: it is not of the form
  \<open>{"status": "error", "error": ...}\<close>.
\<close>

theorem trig_envelope_counterexample:
  "trig_run ex_env ex_acos = Inr ex_acos_answer
   \<and> map_of ex_acos_answer ''status'' = None
   \<and> map_of ex_acos_answer ''error'' = Some (JStr ''math domain error'')"
proof (intro conjI)
  show "trig_run ex_env ex_acos = Inr ex_acos_answer"
    by code_simp
qed (simp_all add: ex_acos_answer_def)

text \<open>
  Claim C6, amended. For every request that names \<open>asin\<close> or \<open>acos\<close> with a value outside
  \<open>[-1, 1]\<close> (an infinity included), \<open>_run\<close> returns, and what it returns is the envelope
  of the trigonometry tool: \<open>function\<close> and \<open>input\<close> as normalised, \<open>result\<close>, \<open>unit\<close> and
  \<open>raw_result\<close> null, and \<open>error\<close> the message \<open>math domain error\<close>. No exception leaves
  \<open>_run\<close>.
\<close>

theorem domain_error_is_reported:
  assumes "trig_normalize_input env query = Inr n"
      and "t_function n = ''asin'' \<or> t_function n = ''acos''"
      and "t_value n = PInf \<or> t_value n = NInf \<or> (\<exists>r. t_value n = Finite r \<and> 1 < \<bar>r\<bar>)"
  shows "trig_run env query =
           Inr [(''function'', JStr (t_function n)),
                (''input'', JDict (trig_dict n)),
                (''result'', JNull), (''unit'', JNull), (''raw_result'', JNull),
                (''error'', JStr ''math domain error'')]"
  using assms(1) trig_domain_error [OF assms(2,3), of env "t_unit n"]
  by (simp add: trig_run_def trig_handle_def trig_format_response_def trig_dict_def)

theorem domain_error_is_reported_witness:
  "trig_normalize_input ex_env ex_acos =
     Inr \<lparr>t_function = ''acos'', t_value = Finite 2, t_unit = ''radians''\<rparr>
   \<and> (1::rat) < \<bar>2\<bar>
   \<and> trig_run ex_env ex_acos = Inr ex_acos_answer"
proof -
  let ?n = "\<lparr>t_function = ''acos'', t_value = Finite 2, t_unit = ''radians''\<rparr>"
  have n: "trig_normalize_input ex_env ex_acos = Inr ?n"
    by code_simp
  have f: "t_function ?n = ''asin'' \<or> t_function ?n = ''acos''"
    by simp
  have v: "t_value ?n = PInf \<or> t_value ?n = NInf \<or> (\<exists>r. t_value ?n = Finite r \<and> 1 < \<bar>r\<bar>)"
    by simp
  from domain_error_is_reported [OF n f v] n show ?thesis
    by (simp add: ex_acos_answer_def trig_dict_def)
qed

section \<open>An update that fails\<close>

lemma update_event_sqlite_failure:
  assumes "use_sqlite st" and "update_event_in_memory env st eid changes = (st', Inl e)"
  shows "st' = st"
  using assms
  by (auto simp: update_event_in_memory_def write_through_def Let_def
           split: sum.splits option.splits if_splits)

lemma update_event_start_failure:
  assumes "get_event_in_memory env st eid = Inr (Some existing)"
      and "update_start env st changes existing = Inl e"
  shows "fst (update_event_in_memory env st eid changes) = st"
  using assms by (simp add: update_event_in_memory_def)

text \<open>
  Claim C1. The claim fails on the in-memory backend. The store holds one event that
  starts at 15:00 on the 3rd; the update supplies a start that parses and an end that does
  not. \<open>_run\<close> answers with the error envelope, and the stored event now starts at 10:00
  on the 4th: \<open>existing["start"]\<close> was assigned, on the stored dict itself, before the
  end was parsed. The same request on the SQLite backend leaves the table as it was.
\<close>

theorem failed_update_partial_write:
  "map_of (in_memory ex_mem) ''e1'' = Some (ex_event ''e1'' ''2025-09-03T15:00:00Z'' JNull)
   \<and> run ex_env ex_mem ex_bad_update =
       (ex_mem\<lparr>in_memory := [(''e1'', ex_event ''e1'' ''2025-09-04T10:00:00Z'' JNull)]\<rparr>,
        Inr (error_envelope
          ''Unable to parse datetime string: garbage; error: Unknown string format: garbage''))
   \<and> run ex_env ex_sql ex_bad_update =
       (ex_sql,
        Inr (error_envelope
          ''Unable to parse datetime string: garbage; error: Unknown string format: garbage''))"
  by (intro conjI; code_simp)

section \<open>Zones and the text of an instant\<close>

lemma utc_offset_text: "format_offset (Some 0) = ''+00:00''"
  by code_simp

lemma str_replace_self:
  assumes "p \<noteq> []"
  shows "str_replace p n p = n"
proof -
  from assms obtain c cs where p: "p = c # cs" by (cases p) auto
  have "str_replace p n (c # cs) = n @ str_replace p n (drop (length p) (c # cs))"
    using assms p by (subst str_replace.simps(2)) simp
  then show ?thesis using p assms by simp
qed

lemma str_replace_suffix:
  assumes "p \<noteq> []"
      and no_overlap: "\<And>s. prefix p (s @ p) \<Longrightarrow> s \<noteq> [] \<Longrightarrow> length p \<le> length s"
  shows "suffix n (str_replace p n (s @ p))"
proof (induction "length s" arbitrary: s rule: less_induct)
  case less
  show ?case
  proof (cases s)
    case Nil
    then show ?thesis using str_replace_self [OF assms(1)] by simp
  next
    case (Cons c cs)
    have step: "str_replace p n (s @ p) =
                  (if prefix p (s @ p) then n @ str_replace p n (drop (length p) (s @ p))
                   else c # str_replace p n (cs @ p))"
      using Cons assms(1) by simp
    show ?thesis
    proof (cases "prefix p (s @ p)")
      case True
      from Cons have "s \<noteq> []" by simp
      from no_overlap [OF True this] have long: "length p \<le> length s" .
      then have "drop (length p) (s @ p) = drop (length p) s @ p"
        by simp
      moreover from long assms(1) Cons have "length (drop (length p) s) < length s"
        by simp
      ultimately show ?thesis
        using step True less [of "drop (length p) s"] by (simp add: suffix_appendI)
    next
      case False
      from Cons have "length cs < length s" by simp
      from less [OF this] step False show ?thesis
        by (simp add: suffix_ConsI)
    qed
  qed
qed

lemma utc_prefix_no_overlap:
  assumes "prefix ''+00:00'' (s @ ''+00:00'')" and "s \<noteq> []"
  shows "length ''+00:00'' \<le> length s"
proof (rule ccontr)
  assume "\<not> length ''+00:00'' \<le> length s"
  then have short: "length s < 6" by simp
  from assms(1) obtain zs where eq: "s @ ''+00:00'' = ''+00:00'' @ zs"
    by (auto simp: prefix_def)
  have "(s @ ''+00:00'') ! length s = CHR ''+''"
    by (simp add: nth_append)
  moreover have "(''+00:00'' @ zs) ! length s = ''+00:00'' ! length s"
    using short by (subst nth_append) simp
  ultimately have plus: "''+00:00'' ! length s = CHR ''+''"
    using eq by simp
  from assms(2) have "0 < length s" by simp
  with short
  have "length s = 1 \<or> length s = 2 \<or> length s = 3 \<or> length s = 4 \<or> length s = 5"
    by arith
  with plus show False by auto
qed

lemma replace_utc_suffix: "suffix ''Z'' (str_replace ''+00:00'' ''Z'' (s @ ''+00:00''))"
  by (rule str_replace_suffix [OF _ utc_prefix_no_overlap]) simp_all

lemma isoformat_suffix:
  assumes "isoformat env d = Inr x"
  shows "suffix ''Z'' x \<and> \<not> suffix ''+00:00'' x"
proof -
  from assms obtain u where
    x: "x = str_replace ''+00:00'' ''Z'' (iso_wall env u @ ''+00:00'')"
    by (auto simp: isoformat_def astimezone_utc_def dt_isoformat_def utc_offset_text Let_def
             split: sum.splits if_splits option.splits)
  then have z: "suffix ''Z'' x"
    by (simp only: replace_utc_suffix)
  then obtain ys where "x = ys @ ''Z''"
    by (auto simp: suffix_def)
  then have "last x = CHR ''Z''" by simp
  moreover have "last x = CHR ''0''" if "suffix ''+00:00'' x"
    using that by (auto simp: suffix_def)
  ultimately have "\<not> suffix ''+00:00'' x" by auto
  with z show ?thesis by simp
qed

lemma parse_datetime_naive:
  assumes "v = JDatetime (DT w None) \<or> (\<exists>s. v = JStr s \<and> dateutil_parse env s = Inr (DT w None))"
  shows "parse_datetime env st v tz =
           astimezone_utc env
             (ensure_tz env (DT w None) (if truthy tz then tz else JStr (default_timezone st)))"
  using assms by (auto simp: parse_datetime_def)

lemma parse_datetime_utc:
  assumes "parse_datetime env st v tz = Inr d"
  shows "\<exists>u. d = DT u (Some 0) \<and> 0 \<le> u \<and> u \<le> max_wall"
  using assms
  by (auto simp: parse_datetime_def and_then_eq_Inr astimezone_utc_def Let_def split: if_splits)

lemma isoformat_total:
  assumes "0 \<le> u" and "u \<le> max_wall"
  shows "\<exists>x. isoformat env (DT u (Some 0)) = Inr x"
  using assms by (simp add: isoformat_def astimezone_utc_def)

lemma create_event_start:
  assumes "create_event_in_memory env st evt = Inr (st', stored)"
  shows "\<exists>d x. map_of stored ''start'' = Some (JStr x) \<and> isoformat env d = Inr x"
  using assms
  by (auto simp: create_event_in_memory_def Let_def and_then_eq_Inr split: if_splits)

lemma create_event_end:
  assumes "create_event_in_memory env st evt = Inr (st', stored)"
  shows "map_of stored ''end'' = Some JNull
       \<or> (\<exists>d x. map_of stored ''end'' = Some (JStr x) \<and> isoformat env d = Inr x)"
  using assms
  by (auto simp: create_event_in_memory_def Let_def and_then_eq_Inr
           split: if_splits option.splits)

lemma ensure_tz_known:
  assumes "name \<noteq> []" and "zoneinfo env name = Some z"
  shows "ensure_tz env (DT w None) (JStr name) = DT w (Some (z w))"
  using assms by (simp add: ensure_tz_def)

lemma ensure_tz_unknown:
  assumes "\<forall>name. tz = JStr name \<longrightarrow> name \<noteq> [] \<longrightarrow> zoneinfo env name = None"
  shows "ensure_tz env (DT w None) tz = DT w (Some 0)"
  using assms by (cases tz) (auto simp: ensure_tz_def)

lemma astimezone_utc_aware:
  assumes "0 \<le> w - d" and "w - d \<le> max_wall"
  shows "astimezone_utc env (DT w (Some d)) = Inr (DT (w - d) (Some 0))"
  using assms by (simp add: astimezone_utc_def)

section \<open>An update changes the supplied field only\<close>

lemma map_of_copy_field:
  "map_of (copy_field k changes existing) k' =
     (if k' = k \<and> map_of changes k \<noteq> None then map_of changes k else map_of existing k')"
  by (auto simp: copy_field_def update_conv' split: option.splits)

lemma copy_field_frame:
  "map_of changes k' = None \<Longrightarrow> map_of (copy_field k changes existing) k' = map_of existing k'"
  by (cases "k' = k") (auto simp: copy_field_def update_conv' split: option.splits)

lemma update_start_frame:
  assumes "update_start env st changes existing = Inr ex1"
  shows "map_of changes ''start'' = None \<or> k \<noteq> ''start'' \<Longrightarrow> map_of ex1 k = map_of existing k"
  using assms
  by (auto simp: update_start_def update_conv' split: option.splits sum.splits)

lemma update_end_frame:
  assumes "update_end env st changes existing = Inr ex2"
  shows "map_of changes ''end'' = None \<or> k \<noteq> ''end'' \<Longrightarrow> map_of ex2 k = map_of existing k"
  using assms
  by (auto simp: update_end_def update_conv' and_then_eq_Inr split: option.splits if_splits)

lemma update_start_value:
  assumes "update_start env st changes existing = Inr ex1" and "map_of changes ''start'' = Some v"
  shows "\<exists>d x. parse_datetime env st v (update_tz st changes existing) = Inr d
               \<and> isoformat env d = Inr x \<and> map_of ex1 ''start'' = Some (JStr x)"
  using assms
  by (auto simp: update_start_def update_conv' and_then_eq_Inr split: sum.splits)

lemma update_end_value:
  assumes "update_end env st changes existing = Inr ex2" and "map_of changes ''end'' = Some v"
  shows "if v = JNull then map_of ex2 ''end'' = Some JNull
         else (\<exists>d x. parse_datetime env st v (update_tz st changes existing) = Inr d
                     \<and> isoformat env d = Inr x \<and> map_of ex2 ''end'' = Some (JStr x))"
  using assms
  by (auto simp: update_end_def update_conv' and_then_eq_Inr split: if_splits)

text \<open>What \<open>_update_event_in_memory\<close> returns, step by step.\<close>

lemma update_event_steps:
  assumes "get_event_in_memory env st eid = Inr (Some existing)"
      and "update_event_in_memory env st eid changes = (st', Inr (Some updated))"
  shows "\<exists>ex1 ex2.
           update_start env st changes existing = Inr ex1
         \<and> update_end env st changes ex1 = Inr ex2
         \<and> updated = copy_field ''metadata'' changes
                        (copy_field ''timezone'' changes
                          (copy_field ''description'' changes
                            (copy_field ''title'' changes ex2)))
         \<and> (if use_sqlite st then persist_update env st updated = Inr st'
             else st' = write_through st eid updated)"
  using assms
  by (auto simp: update_event_in_memory_def Let_def split: sum.splits if_splits)

lemma update_event_frame:
  assumes "get_event_in_memory env st eid = Inr (Some existing)"
      and "update_event_in_memory env st eid changes = (st', Inr (Some updated))"
      and "map_of changes k = None"
  shows "map_of updated k = map_of existing k"
proof -
  from update_event_steps [OF assms(1,2)] obtain ex1 ex2 where
    s: "update_start env st changes existing = Inr ex1" and
    e: "update_end env st changes ex1 = Inr ex2" and
    u: "updated = copy_field ''metadata'' changes
                    (copy_field ''timezone'' changes
                      (copy_field ''description'' changes
                        (copy_field ''title'' changes ex2)))"
    by blast
  have "map_of updated k = map_of ex2 k"
    unfolding u using assms(3) by (simp add: copy_field_frame)
  also have "\<dots> = map_of ex1 k"
  proof (cases "k = ''end''")
    case True
    with assms(3) have "map_of changes ''end'' = None \<or> k \<noteq> ''end''" by simp
    from update_end_frame [OF e this] show ?thesis .
  next
    case False
    then have "map_of changes ''end'' = None \<or> k \<noteq> ''end''" by simp
    from update_end_frame [OF e this] show ?thesis .
  qed
  also have "\<dots> = map_of existing k"
  proof (cases "k = ''start''")
    case True
    with assms(3) have "map_of changes ''start'' = None \<or> k \<noteq> ''start''" by simp
    from update_start_frame [OF s this] show ?thesis .
  next
    case False
    then have "map_of changes ''start'' = None \<or> k \<noteq> ''start''" by simp
    from update_start_frame [OF s this] show ?thesis .
  qed
  finally show ?thesis .
qed

lemma update_event_memory_stored:
  assumes "\<not> use_sqlite st"
      and "get_event_in_memory env st eid = Inr (Some existing)"
      and "update_event_in_memory env st eid changes = (st', Inr (Some updated))"
  shows "get_event_in_memory env st' eid = Inr (Some updated)"
proof -
  from assms(1,2) obtain s where eid: "eid = JStr s"
    by (cases eid) (simp_all add: get_event_in_memory_def mem_lookup_def)
  from update_event_steps [OF assms(2,3)]
  have "if use_sqlite st then persist_update env st updated = Inr st'
        else st' = write_through st eid updated"
    by blast
  with assms(1) have "st' = write_through st eid updated" by simp
  with assms(1) eid show ?thesis
    by (simp add: write_through_def get_event_in_memory_def mem_lookup_def update_conv')
qed

lemma sql_bind_sql_value: "sql_bind env (sql_value c) = Inr c"
  by (cases c) (simp_all add: sql_bind_def sql_value_def)

lemma bind_fields_cols:
  assumes "bind_fields env evt md = Inr rr"
  shows "sql_bind env (dict_get evt ''title'') = Inr (col_title rr)"
    and "sql_bind env (dict_get evt ''description'') = Inr (col_description rr)"
    and "sql_bind env (dict_get evt ''start'') = Inr (col_start rr)"
    and "sql_bind env (dict_get evt ''end'') = Inr (col_end rr)"
    and "sql_bind env (dict_get evt ''timezone'') = Inr (col_timezone rr)"
    and "col_metadata rr = md"
  using assms by (auto simp: bind_fields_def and_then_eq_Inr)

lemma update_event_keeps_id:
  assumes "get_event_in_memory env st eid = Inr (Some existing)"
      and "update_event_in_memory env st eid changes = (st', Inr (Some updated))"
  shows "map_of updated ''id'' = map_of existing ''id''"
proof -
  from update_event_steps [OF assms] obtain ex1 ex2 where
    s: "update_start env st changes existing = Inr ex1" and
    e: "update_end env st changes ex1 = Inr ex2" and
    u: "updated = copy_field ''metadata'' changes
                    (copy_field ''timezone'' changes
                      (copy_field ''description'' changes
                        (copy_field ''title'' changes ex2)))"
    by blast
  have "map_of updated ''id'' = map_of ex2 ''id''"
    unfolding u by (simp add: map_of_copy_field)
  also have "\<dots> = map_of ex1 ''id''"
    by (rule update_end_frame [OF e]) simp
  also have "\<dots> = map_of existing ''id''"
    by (rule update_start_frame [OF s]) simp
  finally show ?thesis .
qed

lemma persist_get_row:
  assumes "persist_get env st eid = Inr (Some existing)"
  shows "\<exists>t r. sql_bind env eid = Inr (Some t)
             \<and> find (\<lambda>old. col_id old = Some t) (events_table st) = Some r
             \<and> existing = row_event r \<and> col_id r = Some t"
proof -
  from assms obtain i r where i: "sql_bind env eid = Inr i"
    and f: "find (\<lambda>old. i \<noteq> None \<and> col_id old = i) (events_table st) = Some r"
    and x: "existing = row_event r"
    by (auto simp: persist_get_def and_then_eq_Inr)
  from f have "i \<noteq> None \<and> col_id r = i"
    by (auto simp: find_Some_iff)
  then obtain t where t: "i = Some t" "col_id r = Some t" by auto
  with f have "find (\<lambda>old. col_id old = Some t) (events_table st) = Some r"
    by simp
  with i x t show ?thesis by blast
qed

lemma find_map_same_id:
  assumes "\<And>old. col_id (f old) = col_id old"
  shows "find (\<lambda>old. col_id old = Some t) (map f rows) =
           map_option f (find (\<lambda>old. col_id old = Some t) rows)"
  using assms by (induction rows) simp_all

lemma update_event_sqlite_stored:
  assumes "use_sqlite st"
      and "get_event_in_memory env st eid = Inr (Some existing)"
      and "update_event_in_memory env st eid changes = (st', Inr (Some updated))"
  shows "\<exists>stored. get_event_in_memory env st' eid = Inr (Some stored)
                 \<and> (\<forall>k. map_of updated k = map_of existing k \<longrightarrow>
                          map_of stored k = map_of existing k)"
proof -
  from assms(1,2) have "persist_get env st eid = Inr (Some existing)"
    by (simp add: get_event_in_memory_def)
  from persist_get_row [OF this] obtain t r where
    b: "sql_bind env eid = Inr (Some t)" and
    f: "find (\<lambda>old. col_id old = Some t) (events_table st) = Some r" and
    x: "existing = row_event r" and rid: "col_id r = Some t"
    by blast
  from update_event_steps [OF assms(2,3)] assms(1)
  have pu: "persist_update env st updated = Inr st'" by auto
  have "map_of updated ''id'' = Some (JStr t)"
    using update_event_keeps_id [OF assms(2,3)] x rid
    by (simp add: row_event_def sql_value_def)
  then have idv: "dict_item updated ''id'' = Inr (JStr t)"
    by (simp add: dict_item_def)
  from pu idv obtain md rr where
    md: "dump_metadata updated = Inr md" and
    bf: "bind_fields env updated md = Inr rr" and
    st': "st' = st\<lparr>events_table :=
                 map (\<lambda>old. if col_id old = Some t then rr\<lparr>col_id := col_id old\<rparr> else old)
                     (events_table st)\<rparr>"
    by (auto simp: persist_update_def and_then_eq_Inr sql_bind_def)
  let ?f = "\<lambda>old. if col_id old = Some t then rr\<lparr>col_id := col_id old\<rparr> else old"
  have "find (\<lambda>old. col_id old = Some t) (map ?f (events_table st)) =
          map_option ?f (find (\<lambda>old. col_id old = Some t) (events_table st))"
    by (rule find_map_same_id) simp
  with f rid have found: "find (\<lambda>old. col_id old = Some t) (events_table st') =
                            Some (rr\<lparr>col_id := Some t\<rparr>)"
    by (simp add: st')
  let ?stored = "row_event (rr\<lparr>col_id := Some t\<rparr>)"
  from assms(1) b found have g: "get_event_in_memory env st' eid = Inr (Some ?stored)"
    by (simp add: get_event_in_memory_def persist_get_def st')
  have "map_of ?stored k = map_of existing k" if same: "map_of updated k = map_of existing k" for k
  proof -
    have get: "dict_get updated k = dict_get existing k"
      using same by (simp add: dict_get_def)
    note cols = bind_fields_cols [OF bf]
    have "col_title rr = col_title r" if "k = ''title''"
      using cols(1) get that sql_bind_sql_value [of env "col_title r"]
      by (simp add: x row_event_def dict_get_def)
    moreover have "col_description rr = col_description r" if "k = ''description''"
      using cols(2) get that sql_bind_sql_value [of env "col_description r"]
      by (simp add: x row_event_def dict_get_def)
    moreover have "col_start rr = col_start r" if "k = ''start''"
      using cols(3) get that sql_bind_sql_value [of env "col_start r"]
      by (simp add: x row_event_def dict_get_def)
    moreover have "col_end rr = col_end r" if "k = ''end''"
      using cols(4) get that sql_bind_sql_value [of env "col_end r"]
      by (simp add: x row_event_def dict_get_def)
    moreover have "col_timezone rr = col_timezone r" if "k = ''timezone''"
      using cols(5) get that sql_bind_sql_value [of env "col_timezone r"]
      by (simp add: x row_event_def dict_get_def)
    moreover have "(case col_metadata rr of None \<Rightarrow> JDict [] | Some v \<Rightarrow> v) =
                   (case col_metadata r of None \<Rightarrow> JDict [] | Some v \<Rightarrow> v)" if "k = ''metadata''"
      using cols(6) md same that
      by (auto simp: x row_event_def dump_metadata_def Let_def split: if_splits option.splits)
    ultimately show ?thesis
      using rid by (simp add: x row_event_def)
  qed
  with g show ?thesis by blast
qed

text \<open>
  Claim C4. An update of an existing event whose change mapping supplies one field returns
  a record that agrees with the record before the update at every other key. The supplied
  field holds the supplied value (\<open>title\<close>, \<open>description\<close>, \<open>timezone\<close>, \<open>metadata\<close>), or the
  text of the parsed instant (\<open>start\<close>, \<open>end\<close>), or null (\<open>end\<close> set to null). The record
  that the backend holds afterwards, in memory or in SQLite, agrees with the record before
  the update at every other key too.
\<close>

theorem update_single_field_frame:
  assumes "get_event_in_memory env st eid = Inr (Some existing)"
      and "update_event_in_memory env st eid [(f, v)] = (st', Inr (Some updated))"
  shows "(\<forall>k. k \<noteq> f \<longrightarrow> map_of updated k = map_of existing k)
       \<and> (f = ''title'' \<or> f = ''description'' \<or> f = ''timezone'' \<or> f = ''metadata'' \<longrightarrow>
            map_of updated f = Some v)
       \<and> (f = ''start'' \<longrightarrow>
            (\<exists>d x. parse_datetime env st v (update_tz st [(f, v)] existing) = Inr d
                  \<and> isoformat env d = Inr x \<and> map_of updated f = Some (JStr x)))
       \<and> (f = ''end'' \<and> v = JNull \<longrightarrow> map_of updated f = Some JNull)
       \<and> (f = ''end'' \<and> v \<noteq> JNull \<longrightarrow>
            (\<exists>d x. parse_datetime env st v (update_tz st [(f, v)] existing) = Inr d
                  \<and> isoformat env d = Inr x \<and> map_of updated f = Some (JStr x)))
       \<and> (\<exists>stored. get_event_in_memory env st' eid = Inr (Some stored)
                  \<and> (\<forall>k. k \<noteq> f \<longrightarrow> map_of stored k = map_of existing k))"
proof -
  let ?changes = "[(f, v)]"
  from update_event_steps [OF assms] obtain ex1 ex2 where
    s: "update_start env st ?changes existing = Inr ex1" and
    e: "update_end env st ?changes ex1 = Inr ex2" and
    u: "updated = copy_field ''metadata'' ?changes
                    (copy_field ''timezone'' ?changes
                      (copy_field ''description'' ?changes
                        (copy_field ''title'' ?changes ex2)))"
    by blast
  have frame: "map_of updated k = map_of existing k" if "k \<noteq> f" for k
    using update_event_frame [OF assms, of k] that by simp
  have plain: "map_of updated f = Some v"
    if "f = ''title'' \<or> f = ''description'' \<or> f = ''timezone'' \<or> f = ''metadata''"
    using that unfolding u by (auto simp: map_of_copy_field)
  have start: "\<exists>d x. parse_datetime env st v (update_tz st ?changes existing) = Inr d
                     \<and> isoformat env d = Inr x \<and> map_of updated f = Some (JStr x)"
    if "f = ''start''"
  proof -
    have "map_of updated ''start'' = map_of ex2 ''start''"
      unfolding u by (simp add: map_of_copy_field)
    also have "\<dots> = map_of ex1 ''start''"
      by (rule update_end_frame [OF e]) simp
    finally show ?thesis
      using update_start_value [OF s, of v] that by simp
  qed
  have tz_same: "update_tz st ?changes ex1 = update_tz st ?changes existing" if "f = ''end''"
    using update_start_frame [OF s, of "''timezone''"] that by (simp add: update_tz_def)
  have fin: "map_of updated ''end'' = map_of ex2 ''end''"
    unfolding u by (simp add: map_of_copy_field)
  have end_null: "map_of updated f = Some JNull" if "f = ''end'' \<and> v = JNull"
    using update_end_value [OF e, of v] fin that by simp
  have end_value: "\<exists>d x. parse_datetime env st v (update_tz st ?changes existing) = Inr d
                         \<and> isoformat env d = Inr x \<and> map_of updated f = Some (JStr x)"
    if "f = ''end'' \<and> v \<noteq> JNull"
    using update_end_value [OF e, of v] fin that tz_same by simp
  have stored: "\<exists>stored. get_event_in_memory env st' eid = Inr (Some stored)
                        \<and> (\<forall>k. k \<noteq> f \<longrightarrow> map_of stored k = map_of existing k)"
  proof (cases "use_sqlite st")
    case True
    from update_event_sqlite_stored [OF True assms] frame show ?thesis by blast
  next
    case False
    from update_event_memory_stored [OF False assms] frame show ?thesis by blast
  qed
  from frame plain start end_null end_value stored show ?thesis by blast
qed

theorem update_single_field_frame_witness:
  "get_event_in_memory ex_env ex_mem (JStr ''e1'') = Inr (Some (ex_event ''e1'' ''2025-09-03T15:00:00Z'' JNull))
   \<and> update_event_in_memory ex_env ex_mem (JStr ''e1'') [(''title'', JStr ''Review'')] =
       (ex_mem\<lparr>in_memory :=
          [(''e1'', [(''id'', JStr ''e1''), (''title'', JStr ''Review''), (''description'', JNull),
                     (''start'', JStr ''2025-09-03T15:00:00Z''), (''end'', JNull),
                     (''timezone'', JStr ''UTC''), (''metadata'', JDict [])])]\<rparr>,
        Inr (Some [(''id'', JStr ''e1''), (''title'', JStr ''Review''), (''description'', JNull),
                   (''start'', JStr ''2025-09-03T15:00:00Z''), (''end'', JNull),
                   (''timezone'', JStr ''UTC''), (''metadata'', JDict [])]))
   \<and> map_of [(''id'', JStr ''e1''), (''title'', JStr ''Review''), (''description'', JNull),
              (''start'', JStr ''2025-09-03T15:00:00Z''), (''end'', JNull),
              (''timezone'', JStr ''UTC''), (''metadata'', JDict [])] ''start'' =
       map_of (ex_event ''e1'' ''2025-09-03T15:00:00Z'' JNull) ''start''"
proof -
  let ?updated = "[(''id'', JStr ''e1''), (''title'', JStr ''Review''), (''description'', JNull),
                   (''start'', JStr ''2025-09-03T15:00:00Z''), (''end'', JNull),
                   (''timezone'', JStr ''UTC''), (''metadata'', JDict [])]"
  have g: "get_event_in_memory ex_env ex_mem (JStr ''e1'') =
             Inr (Some (ex_event ''e1'' ''2025-09-03T15:00:00Z'' JNull))"
    by code_simp
  have u: "update_event_in_memory ex_env ex_mem (JStr ''e1'') [(''title'', JStr ''Review'')] =
             (ex_mem\<lparr>in_memory := [(''e1'', ?updated)]\<rparr>, Inr (Some ?updated))"
    by code_simp
  from update_single_field_frame [OF g u]
  have "\<forall>k. k \<noteq> ''title'' \<longrightarrow>
          map_of ?updated k = map_of (ex_event ''e1'' ''2025-09-03T15:00:00Z'' JNull) k"
    by (rule conjunct1)
  from this [rule_format, of "''start''"]
  have "map_of ?updated ''start'' = map_of (ex_event ''e1'' ''2025-09-03T15:00:00Z'' JNull) ''start''"
    by simp
  with g u show ?thesis by simp
qed

section \<open>The stored text of an instant\<close>

lemma update_event_start_text:
  assumes "get_event_in_memory env st eid = Inr (Some existing)"
      and "update_event_in_memory env st eid changes = (st', Inr (Some updated))"
      and "map_of changes ''start'' = Some v"
  shows "\<exists>d x. map_of updated ''start'' = Some (JStr x) \<and> isoformat env d = Inr x"
proof -
  from update_event_steps [OF assms(1,2)] obtain ex1 ex2 where
    s: "update_start env st changes existing = Inr ex1" and
    e: "update_end env st changes ex1 = Inr ex2" and
    u: "updated = copy_field ''metadata'' changes
                    (copy_field ''timezone'' changes
                      (copy_field ''description'' changes
                        (copy_field ''title'' changes ex2)))"
    by blast
  have "map_of updated ''start'' = map_of ex2 ''start''"
    unfolding u by (simp add: map_of_copy_field)
  also have "\<dots> = map_of ex1 ''start''"
    by (rule update_end_frame [OF e]) simp
  finally show ?thesis
    using update_start_value [OF s assms(3)] by auto
qed

lemma update_event_end_text:
  assumes "get_event_in_memory env st eid = Inr (Some existing)"
      and "update_event_in_memory env st eid changes = (st', Inr (Some updated))"
      and "map_of changes ''end'' = Some v" and "v \<noteq> JNull"
  shows "\<exists>d x. map_of updated ''end'' = Some (JStr x) \<and> isoformat env d = Inr x"
proof -
  from update_event_steps [OF assms(1,2)] obtain ex1 ex2 where
    e: "update_end env st changes ex1 = Inr ex2" and
    u: "updated = copy_field ''metadata'' changes
                    (copy_field ''timezone'' changes
                      (copy_field ''description'' changes
                        (copy_field ''title'' changes ex2)))"
    by blast
  have "map_of updated ''end'' = map_of ex2 ''end''"
    unfolding u by (simp add: map_of_copy_field)
  then show ?thesis
    using update_end_value [OF e assms(3)] assms(4) by auto
qed

text \<open>
  Claim C7. A value that parses to a naive datetime is read in the zone supplied for the
  call when there is one, else in the store's default zone; when that zone is not
  recognised (or there is none) it is read as UTC and nothing is raised. The result is the
  instant in UTC. Its text always ends in \<open>Z\<close> and never in \<open>+00:00\<close>, and so does every
  \<open>start\<close> and every \<open>end\<close> that \<open>create\<close> and \<open>update\<close> store.
\<close>

theorem naive_datetime_zone_and_suffix:
  assumes "v = JDatetime (DT w None) \<or> (\<exists>s. v = JStr s \<and> dateutil_parse env s = Inr (DT w None))"
      and "0 \<le> w" and "w \<le> max_wall"
  shows "(\<forall>name z. truthy tz \<and> tz = JStr name \<and> zoneinfo env name = Some z
                   \<and> 0 \<le> w - z w \<and> w - z w \<le> max_wall \<longrightarrow>
            parse_datetime env st v tz = Inr (DT (w - z w) (Some 0)))
       \<and> (\<forall>z. \<not> truthy tz \<and> default_timezone st \<noteq> []
              \<and> zoneinfo env (default_timezone st) = Some z
              \<and> 0 \<le> w - z w \<and> w - z w \<le> max_wall \<longrightarrow>
            parse_datetime env st v tz = Inr (DT (w - z w) (Some 0)))
       \<and> ((truthy tz \<and> (\<forall>name. tz = JStr name \<longrightarrow> zoneinfo env name = None))
           \<or> (\<not> truthy tz \<and> (default_timezone st = []
                               \<or> zoneinfo env (default_timezone st) = None)) \<longrightarrow>
            parse_datetime env st v tz = Inr (DT w (Some 0)))
       \<and> (\<forall>d. parse_datetime env st v tz = Inr d \<longrightarrow>
            (\<exists>x. isoformat env d = Inr x \<and> suffix ''Z'' x \<and> \<not> suffix ''+00:00'' x))
       \<and> (\<forall>evt st' stored. create_event_in_memory env st evt = Inr (st', stored) \<longrightarrow>
            (\<exists>x. map_of stored ''start'' = Some (JStr x) \<and> suffix ''Z'' x
                 \<and> \<not> suffix ''+00:00'' x)
          \<and> (map_of stored ''end'' = Some JNull
              \<or> (\<exists>x. map_of stored ''end'' = Some (JStr x) \<and> suffix ''Z'' x
                      \<and> \<not> suffix ''+00:00'' x)))
       \<and> (\<forall>eid existing changes st' updated.
              get_event_in_memory env st eid = Inr (Some existing)
            \<and> update_event_in_memory env st eid changes = (st', Inr (Some updated)) \<longrightarrow>
            (map_of changes ''start'' \<noteq> None \<longrightarrow>
               (\<exists>x. map_of updated ''start'' = Some (JStr x) \<and> suffix ''Z'' x
                    \<and> \<not> suffix ''+00:00'' x))
          \<and> (map_of changes ''end'' \<noteq> None \<and> map_of changes ''end'' \<noteq> Some JNull \<longrightarrow>
               (\<exists>x. map_of updated ''end'' = Some (JStr x) \<and> suffix ''Z'' x
                    \<and> \<not> suffix ''+00:00'' x)))"
proof (intro conjI allI impI)
  note p = parse_datetime_naive [OF assms(1), of st tz]
  show "parse_datetime env st v tz = Inr (DT (w - z w) (Some 0))"
    if h: "truthy tz \<and> tz = JStr name \<and> zoneinfo env name = Some z
           \<and> 0 \<le> w - z w \<and> w - z w \<le> max_wall" for name z
  proof -
    from h have tz: "tz = JStr name" and ne: "name \<noteq> []" and z: "zoneinfo env name = Some z"
      and lo: "0 \<le> w - z w" and hi: "w - z w \<le> max_wall"
      by auto
    have "parse_datetime env st v (JStr name) =
            astimezone_utc env (ensure_tz env (DT w None) (JStr name))"
      using parse_datetime_naive [OF assms(1), of st "JStr name"] ne by simp
    also have "\<dots> = astimezone_utc env (DT w (Some (z w)))"
      by (simp only: ensure_tz_known [OF ne z])
    also have "\<dots> = Inr (DT (w - z w) (Some 0))"
      by (rule astimezone_utc_aware [OF lo hi])
    finally show ?thesis unfolding tz .
  qed
  show "parse_datetime env st v tz = Inr (DT (w - z w) (Some 0))"
    if h: "\<not> truthy tz \<and> default_timezone st \<noteq> [] \<and> zoneinfo env (default_timezone st) = Some z
           \<and> 0 \<le> w - z w \<and> w - z w \<le> max_wall" for z
  proof -
    from h have falsy: "\<not> truthy tz" and ne: "default_timezone st \<noteq> []"
      and z: "zoneinfo env (default_timezone st) = Some z"
      and lo: "0 \<le> w - z w" and hi: "w - z w \<le> max_wall"
      by auto
    have "parse_datetime env st v tz =
            astimezone_utc env (ensure_tz env (DT w None) (JStr (default_timezone st)))"
      using p falsy by simp
    also have "\<dots> = astimezone_utc env (DT w (Some (z w)))"
      by (simp only: ensure_tz_known [OF ne z])
    also have "\<dots> = Inr (DT (w - z w) (Some 0))"
      by (rule astimezone_utc_aware [OF lo hi])
    finally show ?thesis .
  qed
  show "parse_datetime env st v tz = Inr (DT w (Some 0))"
    if h: "(truthy tz \<and> (\<forall>name. tz = JStr name \<longrightarrow> zoneinfo env name = None))
           \<or> (\<not> truthy tz \<and> (default_timezone st = [] \<or> zoneinfo env (default_timezone st) = None))"
  proof -
    let ?zone = "if truthy tz then tz else JStr (default_timezone st)"
    from h have "\<forall>name. ?zone = JStr name \<longrightarrow> name \<noteq> [] \<longrightarrow> zoneinfo env name = None"
      by auto
    from ensure_tz_unknown [OF this] have "ensure_tz env (DT w None) ?zone = DT w (Some 0)" .
    with p assms(2,3) show ?thesis
      using astimezone_utc_aware [of w 0 env] by simp
  qed
  show "\<exists>x. isoformat env d = Inr x \<and> suffix ''Z'' x \<and> \<not> suffix ''+00:00'' x"
    if "parse_datetime env st v tz = Inr d" for d
  proof -
    from parse_datetime_utc [OF that] obtain u where
      "d = DT u (Some 0)" "0 \<le> u" "u \<le> max_wall" by blast
    with isoformat_total [of u env] obtain x where "isoformat env d = Inr x"
      by auto
    with isoformat_suffix [OF this] show ?thesis by simp
  qed
  show "\<exists>x. map_of stored ''start'' = Some (JStr x) \<and> suffix ''Z'' x \<and> \<not> suffix ''+00:00'' x"
    if "create_event_in_memory env st evt = Inr (st', stored)" for evt st' stored
    using create_event_start [OF that] isoformat_suffix by blast
  show "map_of stored ''end'' = Some JNull
        \<or> (\<exists>x. map_of stored ''end'' = Some (JStr x) \<and> suffix ''Z'' x \<and> \<not> suffix ''+00:00'' x)"
    if "create_event_in_memory env st evt = Inr (st', stored)" for evt st' stored
    using create_event_end [OF that] isoformat_suffix by blast
  show "\<exists>x. map_of updated ''start'' = Some (JStr x) \<and> suffix ''Z'' x \<and> \<not> suffix ''+00:00'' x"
    if h: "get_event_in_memory env st eid = Inr (Some existing)
           \<and> update_event_in_memory env st eid changes = (st', Inr (Some updated))"
      and c: "map_of changes ''start'' \<noteq> None" for eid existing changes st' updated
  proof -
    from c obtain v' where "map_of changes ''start'' = Some v'" by auto
    from update_event_start_text [OF h [THEN conjunct1] h [THEN conjunct2] this]
      isoformat_suffix show ?thesis by blast
  qed
  show "\<exists>x. map_of updated ''end'' = Some (JStr x) \<and> suffix ''Z'' x \<and> \<not> suffix ''+00:00'' x"
    if h: "get_event_in_memory env st eid = Inr (Some existing)
           \<and> update_event_in_memory env st eid changes = (st', Inr (Some updated))"
      and c: "map_of changes ''end'' \<noteq> None \<and> map_of changes ''end'' \<noteq> Some JNull"
    for eid existing changes st' updated
  proof -
    from c obtain v' where "map_of changes ''end'' = Some v'" and "v' \<noteq> JNull" by auto
    from update_event_end_text [OF h [THEN conjunct1] h [THEN conjunct2] this]
      isoformat_suffix show ?thesis by blast
  qed
qed

theorem naive_datetime_zone_and_suffix_witness:
  "dateutil_parse ex_env ''2025-09-03 20:30'' = Inr (DT 63892528200000000 None)
   \<and> (0::int) \<le> 63892528200000000 \<and> 63892528200000000 \<le> max_wall
   \<and> zoneinfo ex_env ''Mars/Olympus'' = None
   \<and> parse_datetime ex_env ex_mem (JStr ''2025-09-03 20:30'') (JStr ''Mars/Olympus'') =
       Inr (DT 63892528200000000 (Some 0))
   \<and> parse_datetime ex_env ex_mem (JStr ''2025-09-03 20:30'') (JStr ''Asia/Kolkata'') =
       Inr (DT 63892508400000000 (Some 0))
   \<and> isoformat ex_env (DT 63892508400000000 (Some 0)) = Inr ''2025-09-03T15:00:00Z''"
proof -
  have h: "dateutil_parse ex_env ''2025-09-03 20:30'' = Inr (DT 63892528200000000 None)"
    by code_simp
  then have v: "JStr ''2025-09-03 20:30'' = JDatetime (DT 63892528200000000 None)
                \<or> (\<exists>s. JStr ''2025-09-03 20:30'' = JStr s
                       \<and> dateutil_parse ex_env s = Inr (DT 63892528200000000 None))"
    by simp
  have lo: "(0::int) \<le> 63892528200000000" by simp
  have hi: "63892528200000000 \<le> max_wall" by (simp add: max_wall_def)
  have unknown: "zoneinfo ex_env ''Mars/Olympus'' = None"
    by code_simp
  have known: "zoneinfo ex_env ''Asia/Kolkata'' = Some (\<lambda>w. 19800000000)"
    by (simp add: ex_env_def ex_zoneinfo_def)
  have iso: "isoformat ex_env (DT 63892508400000000 (Some 0)) = Inr ''2025-09-03T15:00:00Z''"
    by code_simp
  note t = naive_datetime_zone_and_suffix [OF v lo hi, where st = ex_mem]
  from t [where tz = "JStr ''Mars/Olympus''"] unknown
  have a: "parse_datetime ex_env ex_mem (JStr ''2025-09-03 20:30'') (JStr ''Mars/Olympus'') =
             Inr (DT 63892528200000000 (Some 0))"
    by simp
  from t [where tz = "JStr ''Asia/Kolkata''"] known
  have b: "parse_datetime ex_env ex_mem (JStr ''2025-09-03 20:30'') (JStr ''Asia/Kolkata'') =
             Inr (DT 63892508400000000 (Some 0))"
    by (simp add: max_wall_def)
  from h lo hi unknown a b iso show ?thesis by simp
qed

section \<open>The range query\<close>

lemma insort_key_map:
  "insort_key f (g x) (map g ys) = map g (insort_key (\<lambda>y. f (g y)) x ys)"
  by (induction ys) simp_all

lemma sort_key_map:
  "sort_key f (map g xs) = map g (sort_key (\<lambda>y. f (g y)) xs)"
  by (induction xs) (simp_all add: insort_key_map)

lemma map_exn_Inr:
  assumes "map_exn f xs = Inr ys"
  shows "ys = map (\<lambda>x. case f x of Inr y \<Rightarrow> y | Inl e \<Rightarrow> d) xs \<and> list_all (\<lambda>x. \<exists>y. f x = Inr y) xs"
  using assms
  by (induction xs arbitrary: ys) (auto simp: and_then_eq_Inr)

lemma map_exn_total:
  assumes "list_all (\<lambda>x. \<exists>y. f x = Inr y) xs"
  shows "\<exists>ys. map_exn f xs = Inr ys"
  using assms by (induction xs) auto

lemma between_utc:
  "between (DT a (Some 0)) (DT b (Some 0)) x =
     (if utcoffset x = None
      then Inl (TypeError ''can't compare offset-naive and offset-aware datetimes'')
      else Inr (a \<le> instant x \<and> instant x \<le> b))"
  by (simp add: between_def dt_le_def instant_def)

lemma in_range_Inr:
  assumes "in_range env (DT a (Some 0)) (DT b (Some 0)) e = Inr c"
  shows "c = in_window env a b e \<and> (\<exists>d. event_start env e = Inr d \<and> utcoffset d \<noteq> None)"
proof -
  from assms obtain ds eo c1 where
    s: "event_start env e = Inr ds" and en: "event_end env e = Inr eo" and
    b1: "between (DT a (Some 0)) (DT b (Some 0)) ds = Inr c1" and
    rest: "(if c1 then Inr True
            else (case eo of None \<Rightarrow> Inr False
                  | Some d \<Rightarrow> between (DT a (Some 0)) (DT b (Some 0)) d)) = Inr c"
    by (auto simp: in_range_def and_then_eq_Inr)
  from b1 have aware: "utcoffset ds \<noteq> None" and c1: "c1 = (a \<le> instant ds \<and> instant ds \<le> b)"
    by (auto simp: between_utc split: if_splits)
  from s c1 have si: "start_in env a b e = c1"
    by (simp add: start_in_def)
  have "c = in_window env a b e"
  proof (cases c1)
    case True
    with rest si show ?thesis by (simp add: in_window_def)
  next
    case False
    show ?thesis
    proof (cases eo)
      case None
      with False rest si en show ?thesis
        by (simp add: in_window_def end_in_def)
    next
      case (Some d)
      with False rest si en show ?thesis
        by (auto simp: in_window_def end_in_def between_utc split: if_splits)
    qed
  qed
  with s aware show ?thesis by simp
qed

lemma in_range_total:
  assumes "parses_aware env e"
  shows "\<exists>c. in_range env (DT a (Some 0)) (DT b (Some 0)) e = Inr c"
  using assms
  by (auto simp: parses_aware_def in_range_def between_utc split: sum.splits option.splits)

lemma range_loop_Inr:
  assumes "range_loop env (DT a (Some 0)) (DT b (Some 0)) es = Inr out"
  shows "out = filter (in_window env a b) es
       \<and> list_all (\<lambda>e. \<exists>d. event_start env e = Inr d \<and> utcoffset d \<noteq> None) es"
  using assms
proof (induction es arbitrary: out)
  case Nil
  then show ?case by simp
next
  case (Cons e es)
  from Cons.prems obtain c out' where
    c: "in_range env (DT a (Some 0)) (DT b (Some 0)) e = Inr c" and
    r: "range_loop env (DT a (Some 0)) (DT b (Some 0)) es = Inr out'" and
    o: "out = (if c then e # out' else out')"
    by (auto simp: and_then_eq_Inr)
  from in_range_Inr [OF c] Cons.IH [OF r] o show ?case by simp
qed

lemma range_loop_total:
  assumes "list_all (parses_aware env) es"
  shows "\<exists>out. range_loop env (DT a (Some 0)) (DT b (Some 0)) es = Inr out"
  using assms
proof (induction es)
  case Nil
  then show ?case by simp
next
  case (Cons e es)
  then obtain c out where "in_range env (DT a (Some 0)) (DT b (Some 0)) e = Inr c"
    and "range_loop env (DT a (Some 0)) (DT b (Some 0)) es = Inr out"
    using in_range_total [of env e a b] by auto
  then show ?case by simp
qed

lemma zip_keys:
  "zip (map k xs) xs = map (\<lambda>x. (k x, x)) xs"
  by (induction xs) simp_all

lemma sort_by_start_aware:
  assumes "list_all (\<lambda>e. \<exists>d. event_start env e = Inr d \<and> utcoffset d \<noteq> None) out"
  shows "sort_by_start env out = Inr (sort_key (start_key env) out)"
proof -
  from assms have "list_all (\<lambda>e. \<exists>d. event_start env e = Inr d) out"
    by (auto simp: list_all_iff)
  from map_exn_total [OF this] obtain keys where k: "map_exn (event_start env) out = Inr keys"
    by blast
  from map_exn_Inr [OF this, of "DT 0 None"] have keys: "keys = map (start_datetime env) out"
    by (simp add: start_datetime_def)
  from assms have "list_all (\<lambda>k. utcoffset k \<noteq> None) keys"
    unfolding keys by (auto simp: list_all_iff start_datetime_def)
  moreover have "start_key env = (\<lambda>e. instant (start_datetime env e))"
    by (rule ext) (simp add: start_key_def)
  then have "map snd (sort_key (\<lambda>p. instant (fst p)) (zip keys out)) =
               sort_key (start_key env) out"
    unfolding keys zip_keys sort_key_map
    by (simp add: comp_def)
  ultimately show ?thesis
    using k by (simp add: sort_by_start_def)
qed

text \<open>
  Claim C2. For bounds \<open>a\<close> and \<open>b\<close>, as instants, \<open>_events_in_range\<close> returns exactly the
  stored events whose \<open>start\<close> lies in \<open>[a, b]\<close> or whose \<open>end\<close> is present and lies in
  \<open>[a, b]\<close>, in ascending order of the parsed \<open>start\<close> (events with equal starts keep the
  order of the store). It returns whenever the stored texts parse, as those the tool
  writes do. An event that starts before \<open>a\<close> and ends after \<open>b\<close> is not selected.
\<close>

theorem find_range_exact:
  "(list_all (parses_aware env) (list_events_in_memory st) \<longrightarrow>
      (\<exists>out. events_in_range env st (DT a (Some 0)) (DT b (Some 0)) = Inr out))
   \<and> (\<forall>out. events_in_range env st (DT a (Some 0)) (DT b (Some 0)) = Inr out \<longrightarrow>
          out = sort_key (start_key env) (filter (in_window env a b) (list_events_in_memory st))
        \<and> set out = {e \<in> set (list_events_in_memory st). in_window env a b e}
        \<and> sorted (map (start_key env) out))
   \<and> (\<forall>e ds de. event_start env e = Inr ds \<and> event_end env e = Inr (Some de)
                  \<and> instant ds < a \<and> b < instant de \<longrightarrow>
          \<not> in_window env a b e)"
proof (intro conjI allI impI)
  let ?lo = "DT a (Some 0)" and ?hi = "DT b (Some 0)"
  let ?aware = "\<lambda>e. \<exists>d. event_start env e = Inr d \<and> utcoffset d \<noteq> None"
  have sorted_of: "sort_by_start env out = Inr (sort_key (start_key env) out)"
    if "range_loop env ?lo ?hi (list_events_in_memory st) = Inr out" for out
  proof -
    from range_loop_Inr [OF that] have "list_all ?aware (list_events_in_memory st)"
      and "out = filter (in_window env a b) (list_events_in_memory st)"
      by simp_all
    then have "list_all ?aware out"
      by (auto simp: list_all_iff)
    from sort_by_start_aware [OF this] show ?thesis .
  qed
  show "\<exists>out. events_in_range env st ?lo ?hi = Inr out"
    if "list_all (parses_aware env) (list_events_in_memory st)"
  proof -
    from range_loop_total [OF that] obtain out where
      r: "range_loop env ?lo ?hi (list_events_in_memory st) = Inr out" by blast
    with sorted_of [OF r] show ?thesis
      by (simp add: events_in_range_def)
  qed
  fix out
  assume run: "events_in_range env st ?lo ?hi = Inr out"
  then obtain mid where r: "range_loop env ?lo ?hi (list_events_in_memory st) = Inr mid"
    and s: "sort_by_start env mid = Inr out"
    by (auto simp: events_in_range_def and_then_eq_Inr)
  from range_loop_Inr [OF r] have mid: "mid = filter (in_window env a b) (list_events_in_memory st)"
    by simp
  from sorted_of [OF r] s have out: "out = sort_key (start_key env) mid"
    by simp
  from out mid show "out = sort_key (start_key env) (filter (in_window env a b) (list_events_in_memory st))"
    by simp
  from out mid show "set out = {e \<in> set (list_events_in_memory st). in_window env a b e}"
    by auto
  from out show "sorted (map (start_key env) out)"
    by (simp add: sorted_sort_key)
next
  fix e ds de
  assume "event_start env e = Inr ds \<and> event_end env e = Inr (Some de)
          \<and> instant ds < a \<and> b < instant de"
  then show "\<not> in_window env a b e"
    by (simp add: in_window_def start_in_def end_in_def)
qed

theorem find_range_exact_witness:
  "list_all (parses_aware ex_env) (list_events_in_memory ex_two)
   \<and> events_in_range ex_env ex_two (DT 63892508400000000 (Some 0)) (DT 63892576800000000 (Some 0)) =
       Inr [ex_event ''e1'' ''2025-09-03T15:00:00Z'' JNull,
            ex_event ''e2'' ''2025-09-04T10:00:00Z'' JNull]
   \<and> list_events_in_memory ex_two =
       [ex_event ''e2'' ''2025-09-04T10:00:00Z'' JNull,
        ex_event ''e1'' ''2025-09-03T15:00:00Z'' JNull]
   \<and> sorted (map (start_key ex_env)
               [ex_event ''e1'' ''2025-09-03T15:00:00Z'' JNull,
                ex_event ''e2'' ''2025-09-04T10:00:00Z'' JNull])"
proof -
  let ?out = "[ex_event ''e1'' ''2025-09-03T15:00:00Z'' JNull,
               ex_event ''e2'' ''2025-09-04T10:00:00Z'' JNull]"
  have p: "list_all (parses_aware ex_env) (list_events_in_memory ex_two)"
    by code_simp
  have r: "events_in_range ex_env ex_two (DT 63892508400000000 (Some 0))
             (DT 63892576800000000 (Some 0)) = Inr ?out"
    by code_simp
  have l: "list_events_in_memory ex_two =
             [ex_event ''e2'' ''2025-09-04T10:00:00Z'' JNull,
              ex_event ''e1'' ''2025-09-03T15:00:00Z'' JNull]"
    by code_simp
  from find_range_exact [of ex_env ex_two 63892508400000000 63892576800000000] r
  have "sorted (map (start_key ex_env) ?out)"
    by blast
  with p r l show ?thesis by simp
qed

section \<open>The next event\<close>

lemma dt_le_utc:
  "dt_le (DT t (Some 0)) d =
     (if utcoffset d = None
      then Inl (TypeError ''can't compare offset-naive and offset-aware datetimes'')
      else Inr (t \<le> instant d))"
  by (simp add: dt_le_def instant_def)

lemma upcoming_loop_Inr:
  assumes "upcoming_loop env (DT t (Some 0)) es = Inr up"
  shows "up = map (\<lambda>e. (start_datetime env e, e)) (filter (\<lambda>e. t \<le> start_key env e) es)"
  using assms
proof (induction es arbitrary: up)
  case Nil
  then show ?case by simp
next
  case (Cons e es)
  from Cons.prems obtain d c up' where
    d: "event_start env e = Inr d" and
    c: "dt_le (DT t (Some 0)) d = Inr c" and
    r: "upcoming_loop env (DT t (Some 0)) es = Inr up'" and
    u: "up = (if c then (d, e) # up' else up')"
    by (auto simp: and_then_eq_Inr)
  from c have "c = (t \<le> instant d)"
    by (simp add: dt_le_utc split: if_splits)
  with d have "c = (t \<le> start_key env e)" and "start_datetime env e = d"
    by (simp_all add: start_key_def start_datetime_def)
  with Cons.IH [OF r] u show ?case by simp
qed

lemma upcoming_loop_total:
  assumes "list_all (parses_aware env) es"
  shows "\<exists>up. upcoming_loop env (DT t (Some 0)) es = Inr up"
  using assms
proof (induction es)
  case Nil
  then show ?case by simp
next
  case (Cons e es)
  then obtain up where "upcoming_loop env (DT t (Some 0)) es = Inr up"
    by auto
  moreover from Cons.prems obtain d where "event_start env e = Inr d" "utcoffset d \<noteq> None"
    by (auto simp: parses_aware_def split: sum.splits)
  ultimately show ?case
    by (simp add: dt_le_utc)
qed

lemma find_next_event_Inr:
  assumes "find_next_event env st (DT t (Some 0)) = Inr r"
  shows "r = (case sort_key (start_key env)
                     (filter (\<lambda>e. t \<le> start_key env e) (list_events_in_memory st)) of
                [] \<Rightarrow> None
              | e # es \<Rightarrow> Some e)"
proof -
  let ?g = "\<lambda>e. (start_datetime env e, e)"
  let ?later = "filter (\<lambda>e. t \<le> start_key env e) (list_events_in_memory st)"
  from assms
  obtain up where u: "upcoming_loop env (DT t (Some 0)) (list_events_in_memory st) = Inr up"
    and r: "(case sort_key (\<lambda>p. instant (fst p)) up of
               [] \<Rightarrow> (Inr None :: exn + pydict option)
             | p # ps \<Rightarrow> Inr (Some (snd p))) = Inr r"
    unfolding find_next_event_def and_then_eq_Inr by blast
  have key: "start_key env = (\<lambda>e. instant (fst (?g e)))"
    by (rule ext) (simp add: start_key_def)
  from upcoming_loop_Inr [OF u] have "up = map ?g ?later" .
  then have "sort_key (\<lambda>p. instant (fst p)) up = map ?g (sort_key (start_key env) ?later)"
    by (simp only: sort_key_map key)
  with r show ?thesis
    by (cases "sort_key (start_key env) ?later") auto
qed

lemma sorted_first_least:
  assumes "sort_key k xs = y # ys"
  shows "y \<in> set xs \<and> (\<forall>x \<in> set xs. k y \<le> k x)"
proof -
  have "sorted (map k (sort_key k xs))"
    by (rule sorted_sort_key)
  with assms have "\<forall>x \<in> set (y # ys). k y \<le> k x"
    by auto
  moreover have "set (y # ys) = set xs"
    using assms set_sort [of k xs] by simp
  ultimately show ?thesis by auto
qed

text \<open>
  Claim C3. With \<open>t\<close> the instant taken as now, \<open>_find_next_event\<close> returns an event whose
  \<open>start\<close> is at or after \<open>t\<close> and is the least among the events that start at or after
  \<open>t\<close>; it returns \<open>None\<close> exactly when every stored event starts before \<open>t\<close>. It returns
  whenever the stored texts parse. \<open>_run\<close> answers with that event, or with an empty list
  of events when there is none.
\<close>

theorem find_next_minimal:
  "(list_all (parses_aware env) (list_events_in_memory st) \<longrightarrow>
      (\<exists>r. find_next_event env st (DT t (Some 0)) = Inr r))
   \<and> (\<forall>r. find_next_event env st (DT t (Some 0)) = Inr r \<longrightarrow>
          (r = None \<longleftrightarrow> (\<forall>e \<in> set (list_events_in_memory st). start_key env e < t))
        \<and> (\<forall>e. r = Some e \<longrightarrow>
               e \<in> set (list_events_in_memory st) \<and> t \<le> start_key env e
             \<and> (\<forall>e' \<in> set (list_events_in_memory st).
                   t \<le> start_key env e' \<longrightarrow> start_key env e \<le> start_key env e')))
   \<and> (\<forall>query q. normalize_input env query = Inr q \<and> req_action q = ''find_next''
                  \<and> find_next_event env st (DT (utcnow env) (Some 0)) = Inr None \<longrightarrow>
          run env st query =
            (st, Inr [(''status'', JStr ''ok''), (''error'', JNull), (''event'', JNull),
                      (''events'', JList []), (''count'', JInt 0)]))
   \<and> (\<forall>query q e. normalize_input env query = Inr q \<and> req_action q = ''find_next''
                  \<and> find_next_event env st (DT (utcnow env) (Some 0)) = Inr (Some e)
                  \<and> e \<noteq> [] \<and> json_serializable (JDict e) \<longrightarrow>
          run env st query =
            (st, Inr [(''status'', JStr ''ok''), (''error'', JNull), (''event'', JDict e),
                      (''events'', JNull), (''count'', JInt 1)]))"
proof (intro conjI allI impI)
  let ?later = "filter (\<lambda>e. t \<le> start_key env e) (list_events_in_memory st)"
  show "\<exists>r. find_next_event env st (DT t (Some 0)) = Inr r"
    if "list_all (parses_aware env) (list_events_in_memory st)"
  proof -
    from upcoming_loop_total [OF that] obtain up where
      "upcoming_loop env (DT t (Some 0)) (list_events_in_memory st) = Inr up" by blast
    then show ?thesis
      by (cases "sort_key (\<lambda>p. instant (fst p)) up") (simp_all add: find_next_event_def)
  qed
  fix r
  assume "find_next_event env st (DT t (Some 0)) = Inr r"
  from find_next_event_Inr [OF this]
  have r: "r = (case sort_key (start_key env) ?later of [] \<Rightarrow> None | e # es \<Rightarrow> Some e)" .
  show "r = None \<longleftrightarrow> (\<forall>e \<in> set (list_events_in_memory st). start_key env e < t)"
  proof (cases "sort_key (start_key env) ?later")
    case Nil
    then have "?later = []"
      using length_sort [of "start_key env" ?later] by simp
    with r Nil show ?thesis
      by (auto simp: filter_empty_conv not_le)
  next
    case (Cons y ys)
    from sorted_first_least [OF this]
    have "y \<in> set (list_events_in_memory st)" and "\<not> start_key env y < t"
      by simp_all
    then have "\<not> (\<forall>e \<in> set (list_events_in_memory st). start_key env e < t)"
      by blast
    with r Cons show ?thesis by simp
  qed
  fix e
  assume "r = Some e"
  with r obtain ys where "sort_key (start_key env) ?later = e # ys"
    by (cases "sort_key (start_key env) ?later") auto
  from sorted_first_least [OF this]
  have first: "e \<in> set ?later" and least: "\<forall>x \<in> set ?later. start_key env e \<le> start_key env x"
    by simp_all
  from first show "e \<in> set (list_events_in_memory st)" and "t \<le> start_key env e"
    by simp_all
  from least show "\<forall>e' \<in> set (list_events_in_memory st).
                     t \<le> start_key env e' \<longrightarrow> start_key env e \<le> start_key env e'"
    by simp
next
  fix query q
  assume "normalize_input env query = Inr q \<and> req_action q = ''find_next''
          \<and> find_next_event env st (DT (utcnow env) (Some 0)) = Inr None"
  then show "run env st query =
               (st, Inr [(''status'', JStr ''ok''), (''error'', JNull), (''event'', JNull),
                         (''events'', JList []), (''count'', JInt 0)])"
    by (intro run_of_body_Inr)
       (simp add: run_body_def run_find_next_def no_dict_def format_response_def)
next
  fix query q e
  assume "normalize_input env query = Inr q \<and> req_action q = ''find_next''
          \<and> find_next_event env st (DT (utcnow env) (Some 0)) = Inr (Some e)
          \<and> e \<noteq> [] \<and> json_serializable (JDict e)"
  then show "run env st query =
               (st, Inr [(''status'', JStr ''ok''), (''error'', JNull), (''event'', JDict e),
                         (''events'', JNull), (''count'', JInt 1)])"
    by (intro run_of_body_Inr)
       (simp add: run_body_def run_find_next_def no_dict_def format_response_def)
qed

theorem find_next_minimal_witness:
  "list_all (parses_aware ex_env) (list_events_in_memory ex_two)
   \<and> find_next_event ex_env ex_two (DT 63892540000000000 (Some 0)) =
       Inr (Some (ex_event ''e2'' ''2025-09-04T10:00:00Z'' JNull))
   \<and> 63892540000000000 \<le> start_key ex_env (ex_event ''e2'' ''2025-09-04T10:00:00Z'' JNull)
   \<and> find_next_event ex_env ex_two (DT 63892600000000000 (Some 0)) = Inr None
   \<and> run ex_env ex_two (JDict [(''action'', JStr ''find_next'')]) =
       (ex_two, Inr [(''status'', JStr ''ok''), (''error'', JNull),
                     (''event'', JDict (ex_event ''e2'' ''2025-09-04T10:00:00Z'' JNull)),
                     (''events'', JNull), (''count'', JInt 1)])"
proof -
  have f: "run ex_env ex_two (JDict [(''action'', JStr ''find_next'')]) =
       (ex_two, Inr [(''status'', JStr ''ok''), (''error'', JNull),
                     (''event'', JDict (ex_event ''e2'' ''2025-09-04T10:00:00Z'' JNull)),
                     (''events'', JNull), (''count'', JInt 1)])"
    by code_simp
  have p: "list_all (parses_aware ex_env) (list_events_in_memory ex_two)"
    by code_simp
  have r: "find_next_event ex_env ex_two (DT 63892540000000000 (Some 0)) =
             Inr (Some (ex_event ''e2'' ''2025-09-04T10:00:00Z'' JNull))"
    by code_simp
  have n: "find_next_event ex_env ex_two (DT 63892600000000000 (Some 0)) = Inr None"
    by code_simp
  from find_next_minimal [of ex_env ex_two 63892540000000000] r
  have "63892540000000000 \<le> start_key ex_env (ex_event ''e2'' ''2025-09-04T10:00:00Z'' JNull)"
    by blast
  with p r n f show ?thesis by simp
qed

end
